theory Spec2Isabelle
  imports Main "HOL-Library.Word" "HOL-Library.Sublist"
begin

section \<open>Values and handles passed to the graphics API\<close>

text \<open>
  The program (\<^verbatim>\<open>MainClean.cpp\<close>; the second source file is the same code with
  comments) is one class whose methods \<^verbatim>\<open>initVulkan\<close>, \<^verbatim>\<open>mainLoop\<close> and
  \<^verbatim>\<open>cleanup\<close> are straight-line sequences of calls into GLFW and Vulkan.  The model
  is a trace semantics: every method yields the list of API calls it issues, in order,
  together with its control outcome.  What the API returns is an input of the model
  (an environment record), so every early \<^verbatim>\<open>return\<close> of the source is a branch.

  Handles are named by the member they are stored in: \<open>imageAvailableSemaphores i\<close> is
  the handle held in \<^verbatim>\<open>imageAvailableSemaphores[i]\<close>, a command buffer or fence is named
  by its slot index, a swapchain image or image view by its index in
  \<^verbatim>\<open>swapChainImages\<close> / \<^verbatim>\<open>swapChainImageViews\<close>.
\<close>

type_synonym u32 = "32 word"

datatype VkResult =
    VK_SUCCESS
  | VK_TIMEOUT
  | VK_SUBOPTIMAL_KHR
  | VK_ERROR_OUT_OF_DATE_KHR
  | VK_ERROR_SURFACE_LOST_KHR
  | VK_ERROR_DEVICE_LOST
  | VK_ERROR_INITIALIZATION_FAILED
  | VK_ERROR_OUT_OF_HOST_MEMORY

datatype VkSemaphore = imageAvailableSemaphores nat | renderFinishedSemaphores nat

datatype VkQueue = graphicsQueue | presentQueue

datatype VkPipelineStage =
    VK_PIPELINE_STAGE_TOP_OF_PIPE_BIT
  | VK_PIPELINE_STAGE_COLOR_ATTACHMENT_OUTPUT_BIT
  | VK_PIPELINE_STAGE_BOTTOM_OF_PIPE_BIT

datatype VkImageLayout =
    VK_IMAGE_LAYOUT_UNDEFINED
  | VK_IMAGE_LAYOUT_COLOR_ATTACHMENT_OPTIMAL
  | VK_IMAGE_LAYOUT_ATTACHMENT_OPTIMAL_KHR
  | VK_IMAGE_LAYOUT_PRESENT_SRC_KHR

datatype VkAccess = VK_ACCESS_COLOR_ATTACHMENT_WRITE_BIT

datatype VkAttachmentLoadOp = VK_ATTACHMENT_LOAD_OP_CLEAR
datatype VkAttachmentStoreOp = VK_ATTACHMENT_STORE_OP_STORE

text \<open>
  The program never computes with floating-point numbers; it only writes literals and one
  cast into structures.  A \<open>cfloat\<close> is that expression: the literal \<^verbatim>\<open>0.0f\<close> is
  \<open>FloatLit 0\<close>, and \<^verbatim>\<open>(float)extent.width\<close> is \<open>FloatOfU32 (width extent)\<close>.
\<close>

datatype cfloat = FloatLit int | FloatOfU32 u32

record VkExtent2D =
  width :: u32
  height :: u32

record VkRect2D =
  offset :: "int \<times> int"
  rect_extent :: VkExtent2D

record VkViewport =
  vp_x :: cfloat
  vp_y :: cfloat
  vp_width :: cfloat
  vp_height :: cfloat
  minDepth :: cfloat
  maxDepth :: cfloat

text \<open>
  Of \<^verbatim>\<open>VkImageMemoryBarrier\<close> the fields that differ between the two barriers of a frame
  are kept (the queue family indices and the subresource range are the same constants
  in both).  \<open>barrier_image\<close> is the index used in \<^verbatim>\<open>swapChainImages[imageIndex]\<close>; an access
  mask is the list of its bits, \<open>[]\<close> for \<^verbatim>\<open>0\<close>.
\<close>

record VkImageMemoryBarrier =
  oldLayout :: VkImageLayout
  newLayout :: VkImageLayout
  barrier_image :: u32
  srcAccessMask :: "VkAccess list"
  dstAccessMask :: "VkAccess list"

record VkRenderingAttachmentInfo =
  imageView :: u32
  imageLayout :: VkImageLayout
  loadOp :: VkAttachmentLoadOp
  storeOp :: VkAttachmentStoreOp
  clearValue :: "cfloat list"

record VkRenderingInfo =
  renderArea :: VkRect2D
  layerCount :: u32
  pColorAttachments :: "VkRenderingAttachmentInfo list"

record VkSubmitInfo =
  pWaitSemaphores :: "VkSemaphore list"
  pWaitDstStageMask :: "VkPipelineStage list"
  pCommandBuffers :: "nat list"
  pSignalSemaphores :: "VkSemaphore list"

record VkPresentInfoKHR =
  present_pWaitSemaphores :: "VkSemaphore list"
  swapchainCount :: u32
  pImageIndices :: "u32 list"

datatype shader_stage = vertex_stage | fragment_stage

text \<open>Commands recorded into a command buffer (the \<^verbatim>\<open>vkCmd*\<close> calls).\<close>

datatype command =
    vkCmdPipelineBarrier VkPipelineStage VkPipelineStage VkImageMemoryBarrier
  | vkCmdBeginRendering VkRenderingInfo
  | vkCmdBindPipeline
  | vkCmdSetViewport VkViewport
  | vkCmdSetScissor VkRect2D
  | vkCmdDraw u32 u32 u32 u32
  | vkCmdBindVertexBuffers
  | vkCmdBindIndexBuffer
  | vkCmdEndRendering

text \<open>
  The objects the program creates and destroys, named by the member that holds the
  handle.  \<open>shaderModule\<close> is the local \<^verbatim>\<open>vsShaderModule\<close> / \<^verbatim>\<open>fsShaderModule\<close>,
  with the \<^verbatim>\<open>codeSize\<close> it was created from.
\<close>

datatype resource =
    instance_handle
  | surface
  | device
  | swapChain
  | swapChainImageViews nat
  | shaderModule shader_stage nat
  | pipelineLayout
  | graphicsPipeline
  | commandPool
  | semaphore VkSemaphore
  | inFlightFences nat

text \<open>
  Calls issued by the host, as they appear in a trace.  \<open>vkCreate r\<close> and
  \<open>vkDestroy r\<close> stand for the \<^verbatim>\<open>vkCreate*\<close> / \<^verbatim>\<open>vkDestroy*\<close> call of the object
  \<open>r\<close> (\<^verbatim>\<open>glfwCreateWindowSurface\<close> for the surface).  \<open>vkCmd slot c\<close> records command
  \<open>c\<close> into \<^verbatim>\<open>commandBuffers[slot]\<close>; \<open>vkAcquireNextImageKHR s i\<close> carries the semaphore
  handed over and the index written to \<^verbatim>\<open>imageIndex\<close>; \<open>vkQueueSubmit q info f\<close> carries
  the slot of the fence passed as the last argument; \<open>cerr\<close> is a line written to
  \<^verbatim>\<open>std::cerr\<close>, without its final newline (output to \<^verbatim>\<open>std::cout\<close> is not traced).
  Calls that only read the platform's state are not traced, except the three kept for
  orientation (\<^verbatim>\<open>vkEnumeratePhysicalDevices\<close>, \<^verbatim>\<open>vkGetDeviceQueue\<close>,
  \<^verbatim>\<open>vkGetSwapchainImagesKHR\<close>).  \<open>undefined_behaviour\<close> is not a call: it marks the
  point where the program leaves the contract of a library function, after which C++
  gives its behaviour no meaning.
\<close>

datatype event =
    glfwInit
  | glfwCreateWindow
  | vkCreate resource
  | vkDestroy resource
  | vkEnumeratePhysicalDevices
  | vkGetDeviceQueue VkQueue
  | vkGetSwapchainImagesKHR
  | runtime_compile
  | open_spv shader_stage
  | vkAllocateCommandBuffers nat
  | vkWaitForFences nat
  | vkResetFences nat
  | vkAcquireNextImageKHR VkSemaphore u32
  | vkResetCommandBuffer nat
  | vkBeginCommandBuffer nat
  | vkCmd nat command
  | vkEndCommandBuffer nat
  | vkQueueSubmit VkQueue VkSubmitInfo nat
  | vkQueuePresentKHR VkQueue VkPresentInfoKHR
  | glfwPollEvents
  | vkDeviceWaitIdle
  | glfwDestroyWindow
  | glfwTerminate
  | cerr string
  | undefined_behaviour

text \<open>
  The members of the class that the claims depend on.  The two vectors are represented
  by their sizes, since handles are named by index.
\<close>

record app =
  extent :: VkExtent2D
  viewport :: VkViewport
  scissor :: VkRect2D
  swapChainImages_size :: nat
  swapChainImageViews_size :: nat

definition MAX_FRAMES_IN_FLIGHT :: nat where
  "MAX_FRAMES_IN_FLIGHT = 2"


section \<open>The frame loop\<close>

text \<open>
  What the outside world answers during one pass through \<^verbatim>\<open>while (!glfwWindowShouldClose(window))\<close>:
  the value of the loop condition and the result of each call of the body.  The source
  discards the results of \<^verbatim>\<open>vkWaitForFences\<close>, \<^verbatim>\<open>vkAcquireNextImageKHR\<close> and
  \<^verbatim>\<open>vkQueuePresentKHR\<close>; they are part of the environment all the same.  \<open>imageIndex\<close> is
  the value the local \<^verbatim>\<open>imageIndex\<close> holds after the acquire call.  The source reads
  \<^verbatim>\<open>swapChainImages[imageIndex]\<close> and \<^verbatim>\<open>swapChainImageViews[imageIndex]\<close> unchecked (lines
  617, 640, 671): the model names the image and the view by that index and is the program
  for indices below the sizes of the two vectors, which is what a swapchain returns.
  For an index beyond them (as after a setup that failed before the vectors were
  filled) the source faults at line 617, after \<^verbatim>\<open>vkBeginCommandBuffer\<close>, and the calls
  of the model after that call are not the program's.
\<close>

record frame_env =
  shouldClose :: bool
  r_vkWaitForFences :: VkResult
  r_vkAcquireNextImageKHR :: VkResult
  imageIndex :: u32
  r_vkBeginCommandBuffer :: VkResult
  r_vkEndCommandBuffer :: VkResult
  r_vkQueueSubmit :: VkResult
  r_vkQueuePresentKHR :: VkResult

text \<open>The first barrier of a frame (\<^verbatim>\<open>MainClean.cpp\<close> lines 611-635).\<close>

definition barrier_to_color_attachment :: "u32 \<Rightarrow> command" where
  "barrier_to_color_attachment idx =
     vkCmdPipelineBarrier VK_PIPELINE_STAGE_TOP_OF_PIPE_BIT
       VK_PIPELINE_STAGE_COLOR_ATTACHMENT_OUTPUT_BIT
       \<lparr>oldLayout = VK_IMAGE_LAYOUT_UNDEFINED,
        newLayout = VK_IMAGE_LAYOUT_COLOR_ATTACHMENT_OPTIMAL,
        barrier_image = idx,
        srcAccessMask = [],
        dstAccessMask = [VK_ACCESS_COLOR_ATTACHMENT_WRITE_BIT]\<rparr>"

text \<open>The rendering scope (lines 638-655).\<close>

definition colorAttachment :: "u32 \<Rightarrow> VkRenderingAttachmentInfo" where
  "colorAttachment idx =
     \<lparr>imageView = idx,
      imageLayout = VK_IMAGE_LAYOUT_ATTACHMENT_OPTIMAL_KHR,
      loadOp = VK_ATTACHMENT_LOAD_OP_CLEAR,
      storeOp = VK_ATTACHMENT_STORE_OP_STORE,
      clearValue = [FloatLit 0, FloatLit 0, FloatLit 0, FloatLit 1]\<rparr>"

definition renderingInfo :: "app \<Rightarrow> u32 \<Rightarrow> VkRenderingInfo" where
  "renderingInfo st idx =
     \<lparr>renderArea = \<lparr>offset = (0, 0), rect_extent = extent st\<rparr>,
      layerCount = 1,
      pColorAttachments = [colorAttachment idx]\<rparr>"

text \<open>The second barrier (lines 666-689).\<close>

definition barrier_to_present :: "u32 \<Rightarrow> command" where
  "barrier_to_present idx =
     vkCmdPipelineBarrier VK_PIPELINE_STAGE_COLOR_ATTACHMENT_OUTPUT_BIT
       VK_PIPELINE_STAGE_BOTTOM_OF_PIPE_BIT
       \<lparr>oldLayout = VK_IMAGE_LAYOUT_COLOR_ATTACHMENT_OPTIMAL,
        newLayout = VK_IMAGE_LAYOUT_PRESENT_SRC_KHR,
        barrier_image = idx,
        srcAccessMask = [VK_ACCESS_COLOR_ATTACHMENT_WRITE_BIT],
        dstAccessMask = []\<rparr>"

text \<open>
  The \<^verbatim>\<open>vkCmd*\<close> calls between \<^verbatim>\<open>vkBeginCommandBuffer\<close> and \<^verbatim>\<open>vkEndCommandBuffer\<close>
  (lines 611-689), in source order.
\<close>

definition recorded_commands :: "app \<Rightarrow> u32 \<Rightarrow> command list" where
  "recorded_commands st idx =
     [barrier_to_color_attachment idx,
      vkCmdBeginRendering (renderingInfo st idx),
      vkCmdBindPipeline,
      vkCmdSetViewport (viewport st),
      vkCmdSetScissor (scissor st),
      vkCmdDraw 3 1 0 0,
      vkCmdEndRendering,
      barrier_to_present idx]"

definition submitInfo :: "nat \<Rightarrow> VkSubmitInfo" where
  "submitInfo currentFrame =
     \<lparr>pWaitSemaphores = [imageAvailableSemaphores currentFrame],
      pWaitDstStageMask = [VK_PIPELINE_STAGE_COLOR_ATTACHMENT_OUTPUT_BIT],
      pCommandBuffers = [currentFrame],
      pSignalSemaphores = [renderFinishedSemaphores currentFrame]\<rparr>"

definition presentInfo :: "nat \<Rightarrow> u32 \<Rightarrow> VkPresentInfoKHR" where
  "presentInfo currentFrame idx =
     \<lparr>present_pWaitSemaphores = pSignalSemaphores (submitInfo currentFrame),
      swapchainCount = 1,
      pImageIndices = [idx]\<rparr>"

text \<open>
  The four segments of the loop body.  \<open>frame_wait_acquire\<close> is lines 593-597,
  \<open>frame_record\<close> lines 599-691 (through the call of \<^verbatim>\<open>vkEndCommandBuffer\<close>),
  \<open>frame_submit\<close> line 710 and \<open>frame_present\<close> lines 727-731.
\<close>

definition frame_wait_acquire :: "nat \<Rightarrow> frame_env \<Rightarrow> event list" where
  "frame_wait_acquire currentFrame e =
     [vkWaitForFences currentFrame,
      vkResetFences currentFrame,
      vkAcquireNextImageKHR (imageAvailableSemaphores currentFrame) (imageIndex e)]"

definition frame_record :: "app \<Rightarrow> nat \<Rightarrow> u32 \<Rightarrow> event list" where
  "frame_record st currentFrame idx =
     [vkResetCommandBuffer currentFrame, vkBeginCommandBuffer currentFrame]
     @ map (vkCmd currentFrame) (recorded_commands st idx)
     @ [vkEndCommandBuffer currentFrame]"

definition frame_submit :: "nat \<Rightarrow> event" where
  "frame_submit currentFrame =
     vkQueueSubmit graphicsQueue (submitInfo currentFrame) currentFrame"

definition frame_present :: "nat \<Rightarrow> u32 \<Rightarrow> event list" where
  "frame_present currentFrame idx =
     [vkQueuePresentKHR presentQueue (presentInfo currentFrame idx), glfwPollEvents]"

text \<open>
  One pass through the loop body with slot count \<open>n\<close> (the constant
  \<^verbatim>\<open>MAX_FRAMES_IN_FLIGHT\<close>): the calls issued, and \<open>Some\<close> of the next value of
  \<^verbatim>\<open>currentFrame\<close>, or \<open>None\<close> where the source executes \<^verbatim>\<open>return\<close>.  When
  \<^verbatim>\<open>vkBeginCommandBuffer\<close> fails, the source returns before recording anything.
  \<^verbatim>\<open>currentFrame\<close> is a \<^verbatim>\<open>uint32_t\<close> below \<open>n\<close> and \<open>n\<close> is a positive \<^verbatim>\<open>int\<close>, so
  \<^verbatim>\<open>currentFrame + 1\<close> never wraps and the slot is modelled as a natural number.
\<close>

definition frame :: "nat \<Rightarrow> app \<Rightarrow> nat \<Rightarrow> frame_env \<Rightarrow> event list \<times> nat option" where
  "frame n st currentFrame e =
     (if r_vkBeginCommandBuffer e \<noteq> VK_SUCCESS then
        (frame_wait_acquire currentFrame e
           @ [vkResetCommandBuffer currentFrame, vkBeginCommandBuffer currentFrame,
              cerr ''Failed to record VkBeginCommandBuffer''],
         None)
      else if r_vkEndCommandBuffer e \<noteq> VK_SUCCESS then
        (frame_wait_acquire currentFrame e
           @ frame_record st currentFrame (imageIndex e)
           @ [cerr ''Failed to record VkEndCommandBuffer''],
         None)
      else if r_vkQueueSubmit e \<noteq> VK_SUCCESS then
        (frame_wait_acquire currentFrame e
           @ frame_record st currentFrame (imageIndex e)
           @ [frame_submit currentFrame,
              cerr ''Failed to submit to the graphics queue on VkQueueSubmit''],
         None)
      else
        (frame_wait_acquire currentFrame e
           @ frame_record st currentFrame (imageIndex e)
           @ [frame_submit currentFrame]
           @ frame_present currentFrame (imageIndex e),
         Some ((currentFrame + 1) mod n)))"

text \<open>
  The loop may run forever (the window may never be closed), so \<open>mainLoop_from\<close> is
  the loop run against a finite list of observations, one per evaluation of the loop
  condition: its value is the trace so far and where control stands.  \<open>Looping c\<close>:
  the observations ran out with the loop still running, about to start a pass with
  \<^verbatim>\<open>currentFrame = c\<close>.  \<open>Exited\<close>: the condition was false and the
  \<^verbatim>\<open>vkDeviceWaitIdle\<close> after the loop (line 734) was called.  \<open>Returned\<close>: the body
  executed \<^verbatim>\<open>return\<close>.  Every finite prefix of every run is the value of
  \<open>mainLoop_from\<close> on some list, so a property of all its values is a safety property
  of the loop.
\<close>

datatype loop_status = Looping nat | Exited | Returned

fun mainLoop_from :: "nat \<Rightarrow> app \<Rightarrow> nat \<Rightarrow> frame_env list \<Rightarrow> event list \<times> loop_status" where
  "mainLoop_from n st currentFrame [] = ([], Looping currentFrame)"
| "mainLoop_from n st currentFrame (e # es) =
     (if shouldClose e then ([vkDeviceWaitIdle], Exited)
      else case frame n st currentFrame e of
             (evs, None) \<Rightarrow> (evs, Returned)
           | (evs, Some next) \<Rightarrow>
               (case mainLoop_from n st next es of (evs', s) \<Rightarrow> (evs @ evs', s)))"

definition mainLoop :: "nat \<Rightarrow> app \<Rightarrow> frame_env list \<Rightarrow> event list \<times> loop_status" where
  "mainLoop n st es = mainLoop_from n st 0 es"


section \<open>Setup\<close>

text \<open>
  \<^verbatim>\<open>initVulkan\<close> is a sequence of calls, each followed by a check that executes
  \<^verbatim>\<open>return\<close> on failure.  A \<open>step\<close> maps the members to the calls issued, the
  members afterwards, and \<open>True\<close> when control falls through to the next statement
  (\<open>False\<close>: control has left \<^verbatim>\<open>initVulkan\<close>, by a \<^verbatim>\<open>return\<close> or, after the marker
  \<open>undefined_behaviour\<close>, in a way the language does not define).
\<close>

type_synonym step = "app \<Rightarrow> event list \<times> app \<times> bool"

definition call :: "event \<Rightarrow> step" where
  "call ev st = ([ev], st, True)"

definition assign :: "(app \<Rightarrow> app) \<Rightarrow> step" where
  "assign f st = ([], f st, True)"

text \<open>\<^verbatim>\<open>if (f(...) != VK_SUCCESS) { std::cerr << msg; return; }\<close>\<close>

definition check :: "event \<Rightarrow> VkResult \<Rightarrow> string \<Rightarrow> step" where
  "check ev r msg st =
     (if r \<noteq> VK_SUCCESS then ([ev, cerr msg], st, False) else ([ev], st, True))"

text \<open>\<^verbatim>\<open>if (!cond) { std::cerr << msg; return; }\<close>\<close>

definition require :: "bool \<Rightarrow> string \<Rightarrow> step" where
  "require cond msg st = (if cond then ([], st, True) else ([cerr msg], st, False))"

text \<open>\<^verbatim>\<open>if (!cond) std::cerr << msg;\<close> with no \<^verbatim>\<open>return\<close>.\<close>

definition warn_unless :: "bool \<Rightarrow> string \<Rightarrow> step" where
  "warn_unless cond msg st = (if cond then ([], st, True) else ([cerr msg], st, True))"

fun steps :: "step list \<Rightarrow> step" where
  "steps [] st = ([], st, True)"
| "steps (f # fs) st =
     (case f st of
        (evs, st', False) \<Rightarrow> (evs, st', False)
      | (evs, st', True) \<Rightarrow> (case steps fs st' of (evs', r) \<Rightarrow> (evs @ evs', r)))"

record VkSurfaceCapabilitiesKHR =
  currentExtent :: VkExtent2D
  minImageExtent :: VkExtent2D
  maxImageExtent :: VkExtent2D

text \<open>
  \<^verbatim>\<open>std::clamp(v, lo, hi)\<close>.  The standard leaves the call undefined when \<open>hi < lo\<close>, and
  the library implementations return different values there: that case is \<open>None\<close>.
\<close>

definition std_clamp :: "u32 \<Rightarrow> u32 \<Rightarrow> u32 \<Rightarrow> u32 option" where
  "std_clamp v lo hi =
     (if hi < lo then None else Some (if v < lo then lo else if hi < v then hi else v))"

text \<open>
  Lines 306-309: \<^verbatim>\<open>actualExtent\<close> before clamping.  The argument is what
  \<^verbatim>\<open>glfwGetFramebufferSize\<close> writes to the two \<^verbatim>\<open>int\<close>s; \<^verbatim>\<open>static_cast<uint32_t>\<close> keeps
  the value modulo \<open>2 ^ 32\<close>.
\<close>

definition framebuffer_extent :: "int \<times> int \<Rightarrow> VkExtent2D" where
  "framebuffer_extent fb = \<lparr>width = word_of_int (fst fb), height = word_of_int (snd fb)\<rparr>"

text \<open>
  Lines 288 and 302-314: the value of \<^verbatim>\<open>this->extent\<close> after them, \<open>None\<close> when one of
  the two calls of \<^verbatim>\<open>std::clamp\<close> is undefined.  Only the width is compared with the
  sentinel \<open>2 ^ 32 - 1\<close>.
\<close>

definition resolve_extent :: "VkSurfaceCapabilitiesKHR \<Rightarrow> int \<times> int \<Rightarrow> VkExtent2D option" where
  "resolve_extent capabilities fb =
     (if width (currentExtent capabilities) = - 1 then
        (case std_clamp (width (framebuffer_extent fb))
                (width (minImageExtent capabilities)) (width (maxImageExtent capabilities)) of
           None \<Rightarrow> None
         | Some w \<Rightarrow>
             (case std_clamp (height (framebuffer_extent fb))
                     (height (minImageExtent capabilities))
                     (height (maxImageExtent capabilities)) of
                None \<Rightarrow> None
              | Some h \<Rightarrow> Some \<lparr>width = w, height = h\<rparr>))
      else Some (currentExtent capabilities))"

text \<open>
  \<open>set_extent\<close> is the assignment of \<^verbatim>\<open>this->extent\<close>.  Where \<^verbatim>\<open>std::clamp\<close> is undefined
  the model records the marker and goes no further in \<^verbatim>\<open>initVulkan\<close>; what a trace
  holds after the marker has no counterpart in the program.
\<close>

definition set_extent :: "VkSurfaceCapabilitiesKHR \<Rightarrow> int \<times> int \<Rightarrow> step" where
  "set_extent capabilities fb st =
     (case resolve_extent capabilities fb of
        Some ext \<Rightarrow> ([], st\<lparr>extent := ext\<rparr>, True)
      | None \<Rightarrow> ([undefined_behaviour], st, False))"

text \<open>
  The environment of the part of \<^verbatim>\<open>initVulkan\<close> that is inside
  \<^verbatim>\<open>for (size_t i = 0; i < swapChainImages.size(); i++)\<close>: one record per pass.
  A shader file is the size \<^verbatim>\<open>tellg\<close> reports, \<open>None\<close> when \<^verbatim>\<open>is_open()\<close> is false
  (its bytes are opaque to the program).
\<close>

record sync_env =
  r_imageAvailable :: VkResult
  r_renderFinished :: VkResult
  r_inFlightFence :: VkResult

record image_env =
  r_vkCreateImageView :: VkResult
  vert_spv :: "nat option"
  frag_spv :: "nat option"
  r_vsShaderModule :: VkResult
  r_fsShaderModule :: VkResult
  r_vkCreatePipelineLayout :: VkResult
  r_vkCreateGraphicsPipelines :: VkResult
  r_vkCreateCommandPool :: VkResult
  r_vkAllocateCommandBuffers :: VkResult
  r_sync :: "nat \<Rightarrow> sync_env"

record setup_env =
  layerFound :: bool
  r_vkCreateInstance :: VkResult
  r_glfwCreateWindowSurface :: VkResult
  deviceCount :: u32
  r_vkCreateDevice :: VkResult
  capabilities :: VkSurfaceCapabilitiesKHR
  formatCount :: u32
  presentModeCount :: u32
  framebufferSize :: "int \<times> int"
  r_vkCreateSwapchainKHR :: VkResult
  images :: "image_env list"

text \<open>
  One pass of the loop at line 575: the three creations are joined by \<^verbatim>\<open>||\<close>, so a
  failure skips the calls after it.
\<close>

definition create_sync_slot :: "sync_env \<Rightarrow> nat \<Rightarrow> step" where
  "create_sync_slot r i st =
     (if r_imageAvailable r \<noteq> VK_SUCCESS then
        ([vkCreate (semaphore (imageAvailableSemaphores i)),
          cerr ''Failed to create a VkSemaphore or VkFence''], st, False)
      else if r_renderFinished r \<noteq> VK_SUCCESS then
        ([vkCreate (semaphore (imageAvailableSemaphores i)),
          vkCreate (semaphore (renderFinishedSemaphores i)),
          cerr ''Failed to create a VkSemaphore or VkFence''], st, False)
      else if r_inFlightFence r \<noteq> VK_SUCCESS then
        ([vkCreate (semaphore (imageAvailableSemaphores i)),
          vkCreate (semaphore (renderFinishedSemaphores i)),
          vkCreate (inFlightFences i),
          cerr ''Failed to create a VkSemaphore or VkFence''], st, False)
      else
        ([vkCreate (semaphore (imageAvailableSemaphores i)),
          vkCreate (semaphore (renderFinishedSemaphores i)),
          vkCreate (inFlightFences i)], st, True))"

text \<open>Lines 445-453.\<close>

definition set_viewport_scissor :: "app \<Rightarrow> app" where
  "set_viewport_scissor st =
     st\<lparr>viewport :=
          \<lparr>vp_x = FloatLit 0, vp_y = FloatLit 0,
           vp_width = FloatOfU32 (width (extent st)),
           vp_height = FloatOfU32 (height (extent st)),
           minDepth = FloatLit 0, maxDepth = FloatLit 1\<rparr>,
        scissor := \<lparr>offset = (0, 0), rect_extent = extent st\<rparr>\<rparr>"

text \<open>
  The body of the loop over the swapchain images, lines 356-582, for image \<open>i\<close>.
  In the source the closing brace of that loop is at line 583, so shader loading,
  pipeline construction, the command pool and the synchronization objects are all
  inside it.
\<close>

definition init_image :: "nat \<Rightarrow> image_env \<Rightarrow> nat \<Rightarrow> step" where
  "init_image n ie i =
     steps
      [check (vkCreate (swapChainImageViews i)) (r_vkCreateImageView ie)
         ''VkImageView Creation Error'',
       call runtime_compile,
       call (open_spv vertex_stage),
       require (vert_spv ie \<noteq> None) ''Failed to read vertex shader file'',
       call (open_spv fragment_stage),
       require (frag_spv ie \<noteq> None) ''Failed to load fragment shader file'',
       check (vkCreate (shaderModule vertex_stage (the (vert_spv ie)))) (r_vsShaderModule ie)
         ''Failed to create VkShaderModule (vertex)'',
       check (vkCreate (shaderModule fragment_stage (the (frag_spv ie)))) (r_fsShaderModule ie)
         ''Failed to create VkShaderModule (fragment)'',
       assign set_viewport_scissor,
       check (vkCreate pipelineLayout) (r_vkCreatePipelineLayout ie)
         ''Failed to create VkCreatePipelineLayout'',
       check (vkCreate graphicsPipeline) (r_vkCreateGraphicsPipelines ie)
         ''Failed to create VkCreatePipeline'',
       call (vkDestroy (shaderModule vertex_stage (the (vert_spv ie)))),
       call (vkDestroy (shaderModule fragment_stage (the (frag_spv ie)))),
       check (vkCreate commandPool) (r_vkCreateCommandPool ie)
         ''Failed to create VkCreateCommandPool'',
       check (vkAllocateCommandBuffers n) (r_vkAllocateCommandBuffers ie)
         ''Failed to allocate with VkAllocateCommandBuffers'',
       steps (map (\<lambda>k. create_sync_slot (r_sync ie k) k) [0..<n])]"

text \<open>The loop itself: image \<open>i\<close> is the head of the list, the rest follow.\<close>

fun image_loop :: "nat \<Rightarrow> image_env list \<Rightarrow> nat \<Rightarrow> step" where
  "image_loop n [] i = steps []"
| "image_loop n (ie # ies) i = steps [init_image n ie i, image_loop n ies (Suc i)]"

text \<open>
  \<^verbatim>\<open>initVulkan\<close>, lines 78-586.  \<open>layerFound env\<close> is the outcome of the lookup of the
  one requested validation layer (lines 107-127, \<^verbatim>\<open>DEBUG\<close> is defined): when it is
  missing a line is written to \<^verbatim>\<open>std::cerr\<close> and setup goes on.  Not modelled, since
  no \<^verbatim>\<open>return\<close>, no line on \<^verbatim>\<open>std::cerr\<close> and no member read by the loop depends on
  them: the choice among several physical devices, the queue family indices, and the
  choice of surface format and present mode.  The number of swapchain images is the
  length of \<open>images env\<close>.
\<close>

definition initVulkan :: "nat \<Rightarrow> setup_env \<Rightarrow> step" where
  "initVulkan n env =
     steps
      [warn_unless (layerFound env)
         ''Requested validation layer: VK_LAYER_KHRONOS_validation is not availible'',
       check (vkCreate instance_handle) (r_vkCreateInstance env) ''VkInstance Creation Error'',
       check (vkCreate surface) (r_glfwCreateWindowSurface env) ''VkSurfaceKHR Creation Error'',
       call vkEnumeratePhysicalDevices,
       require (deviceCount env \<noteq> 0) ''Failed to find GPUs with Vulkan support'',
       call vkEnumeratePhysicalDevices,
       check (vkCreate device) (r_vkCreateDevice env) ''VkDevice Creation Error'',
       call (vkGetDeviceQueue graphicsQueue),
       call (vkGetDeviceQueue presentQueue),
       require (formatCount env \<noteq> 0 \<and> presentModeCount env \<noteq> 0)
         ''Chosen physical device swap chain doesn't support current window surface or is not adequate'',
       set_extent (capabilities env) (framebufferSize env),
       check (vkCreate swapChain) (r_vkCreateSwapchainKHR env) ''VkSwapchainKHR Creation Error'',
       call vkGetSwapchainImagesKHR,
       assign (\<lambda>st. st\<lparr>swapChainImages_size := length (images env)\<rparr>),
       call vkGetSwapchainImagesKHR,
       assign (\<lambda>st. st\<lparr>swapChainImageViews_size := swapChainImages_size st\<rparr>),
       image_loop n (images env) 0]"

section \<open>Teardown and the whole run\<close>

definition initWindow :: "event list" where
  "initWindow = [glfwInit, glfwCreateWindow]"

text \<open>\<^verbatim>\<open>cleanup\<close>, lines 737-760.\<close>

definition cleanup :: "nat \<Rightarrow> app \<Rightarrow> event list" where
  "cleanup n st =
     vkDeviceWaitIdle
     # concat (map (\<lambda>i. [vkDestroy (semaphore (imageAvailableSemaphores i)),
                          vkDestroy (semaphore (renderFinishedSemaphores i)),
                          vkDestroy (inFlightFences i)]) [0..<n])
     @ [vkDestroy commandPool, vkDestroy graphicsPipeline, vkDestroy pipelineLayout]
     @ map (\<lambda>i. vkDestroy (swapChainImageViews i)) [0..<swapChainImageViews_size st]
     @ [vkDestroy swapChain, vkDestroy device, vkDestroy surface, vkDestroy instance_handle,
        glfwDestroyWindow, glfwTerminate]"

text \<open>
  \<^verbatim>\<open>run\<close>, lines 63-68.  \<^verbatim>\<open>initVulkan\<close> returns \<^verbatim>\<open>void\<close>, so \<^verbatim>\<open>run\<close> cannot see
  whether it returned early: \<^verbatim>\<open>mainLoop\<close> and \<^verbatim>\<open>cleanup\<close> are called in either case.
  \<open>u\<close> gives the indeterminate initial values of the members; the two vectors start
  empty.  While the loop is still running (\<open>Looping\<close>), \<^verbatim>\<open>cleanup\<close> has not been called.
\<close>

definition run :: "nat \<Rightarrow> setup_env \<Rightarrow> frame_env list \<Rightarrow> app \<Rightarrow> event list \<times> loop_status" where
  "run n env fes u =
     (case initVulkan n env (u\<lparr>swapChainImages_size := 0, swapChainImageViews_size := 0\<rparr>) of
        (t1, st, fell_through) \<Rightarrow>
          (case mainLoop n st fes of
             (t2, Looping c) \<Rightarrow> (initWindow @ t1 @ t2, Looping c)
           | (t2, Exited) \<Rightarrow> (initWindow @ t1 @ t2 @ cleanup n st, Exited)
           | (t2, Returned) \<Rightarrow> (initWindow @ t1 @ t2 @ cleanup n st, Returned)))"


section \<open>Observations on traces\<close>

text \<open>
  The functions of this section read a trace; they are what the properties below are
  stated with.  A pass of the loop \<open>completes\<close> when the window stays open and the
  three checked calls succeed.
\<close>

definition completes :: "frame_env \<Rightarrow> bool" where
  "completes e \<longleftrightarrow>
     \<not> shouldClose e \<and> r_vkBeginCommandBuffer e = VK_SUCCESS
     \<and> r_vkEndCommandBuffer e = VK_SUCCESS \<and> r_vkQueueSubmit e = VK_SUCCESS"

fun waited_slots :: "event list \<Rightarrow> nat list" where
  "waited_slots [] = []"
| "waited_slots (vkWaitForFences s # t) = s # waited_slots t"
| "waited_slots (_ # t) = waited_slots t"

fun is_cerr :: "event \<Rightarrow> bool" where
  "is_cerr (cerr m) = True"
| "is_cerr _ = False"

text \<open>
  \<open>buffer_of ev\<close> is the slot whose command buffer the host writes with \<open>ev\<close>
  (reset, begin, a recorded command, end).
\<close>

fun buffer_of :: "event \<Rightarrow> nat option" where
  "buffer_of (vkResetCommandBuffer s) = Some s"
| "buffer_of (vkBeginCommandBuffer s) = Some s"
| "buffer_of (vkCmd s c) = Some s"
| "buffer_of (vkEndCommandBuffer s) = Some s"
| "buffer_of _ = None"

text \<open>The calls that concern fence \<open>s\<close>: a wait on it, its reset, a submission that signals it.\<close>

fun fence_event :: "nat \<Rightarrow> event \<Rightarrow> bool" where
  "fence_event s (vkWaitForFences k) = (k = s)"
| "fence_event s (vkResetFences k) = (k = s)"
| "fence_event s (vkQueueSubmit q info f) = (f = s)"
| "fence_event s _ = False"

text \<open>
  A monitor for the order of fence waits, fence resets and buffer writes.  Its state is
  the slot whose fence was waited on by the call just seen (its reset must come next),
  and for every slot whether its fence has been waited on and reset with no call on
  that fence since.  A buffer write is permitted only in a slot of the second kind.
\<close>

type_synonym fence_monitor = "nat option \<times> (nat \<Rightarrow> bool)"

fun advance :: "fence_monitor \<Rightarrow> event \<Rightarrow> fence_monitor" where
  "advance (Some p, r) ev = (None, r(p := True))"
| "advance (None, r) (vkWaitForFences s) = (Some s, r(s := False))"
| "advance (None, r) (vkResetFences s) = (None, r(s := False))"
| "advance (None, r) (vkQueueSubmit q info f) = (None, r(f := False))"
| "advance (None, r) ev = (None, r)"

fun permitted :: "fence_monitor \<Rightarrow> event \<Rightarrow> bool" where
  "permitted (Some p, r) ev = (ev = vkResetFences p)"
| "permitted (None, r) ev = (case buffer_of ev of None \<Rightarrow> True | Some s \<Rightarrow> r s)"

fun guarded :: "fence_monitor \<Rightarrow> event list \<Rightarrow> bool" where
  "guarded m [] = True"
| "guarded m (ev # t) = (permitted m ev \<and> guarded (advance m ev) t)"

text \<open>
  Every slot index a call mentions (fence, command buffer, semaphores), and a monitor
  stating that a call at or after the \<open>(k+1)\<close>-th fence wait, and before the next one,
  mentions no slot but \<open>k mod n\<close>; \<open>j\<close> counts the fence waits seen so far.
\<close>

fun semaphore_slot :: "VkSemaphore \<Rightarrow> nat" where
  "semaphore_slot (imageAvailableSemaphores i) = i"
| "semaphore_slot (renderFinishedSemaphores i) = i"

fun slots_mentioned :: "event \<Rightarrow> nat list" where
  "slots_mentioned (vkWaitForFences s) = [s]"
| "slots_mentioned (vkResetFences s) = [s]"
| "slots_mentioned (vkAcquireNextImageKHR sem i) = [semaphore_slot sem]"
| "slots_mentioned (vkResetCommandBuffer s) = [s]"
| "slots_mentioned (vkBeginCommandBuffer s) = [s]"
| "slots_mentioned (vkCmd s c) = [s]"
| "slots_mentioned (vkEndCommandBuffer s) = [s]"
| "slots_mentioned (vkQueueSubmit q info f) =
     f # pCommandBuffers info
       @ map semaphore_slot (pWaitSemaphores info @ pSignalSemaphores info)"
| "slots_mentioned (vkQueuePresentKHR q info) = map semaphore_slot (present_pWaitSemaphores info)"
| "slots_mentioned _ = []"

fun cyclic :: "nat \<Rightarrow> nat \<Rightarrow> event list \<Rightarrow> bool" where
  "cyclic n j [] = True"
| "cyclic n j (ev # t) =
     (list_all (\<lambda>s. case j + length (waited_slots [ev]) of 0 \<Rightarrow> True | Suc k \<Rightarrow> s = k mod n)
        (slots_mentioned ev)
      \<and> cyclic n (j + length (waited_slots [ev])) t)"

text \<open>
  The destructions \<^verbatim>\<open>cleanup\<close> performs (every \<^verbatim>\<open>vkDestroy*\<close> but that of the shader
  modules, which \<^verbatim>\<open>initVulkan\<close> destroys itself before any work is submitted), and
  the calls that hand work to the device or presentation engine.
\<close>

fun destroys_resource :: "event \<Rightarrow> bool" where
  "destroys_resource (vkDestroy (shaderModule s k)) = False"
| "destroys_resource (vkDestroy r) = True"
| "destroys_resource _ = False"

fun enqueues_work :: "event \<Rightarrow> bool" where
  "enqueues_work (vkAcquireNextImageKHR s i) = True"
| "enqueues_work (vkQueueSubmit q info f) = True"
| "enqueues_work (vkQueuePresentKHR q info) = True"
| "enqueues_work _ = False"

text \<open>A step that destroys none of these objects, whatever the members are.\<close>

definition no_destroy :: "step \<Rightarrow> bool" where
  "no_destroy f \<longleftrightarrow> (\<forall>st. \<forall>x\<in>set (fst (f st)). \<not> destroys_resource x)"

text \<open>Whether an extent lies within the bounds the surface reports, in both components.\<close>

definition extent_in_range :: "VkSurfaceCapabilitiesKHR \<Rightarrow> VkExtent2D \<Rightarrow> bool" where
  "extent_in_range caps ext \<longleftrightarrow>
     width (minImageExtent caps) \<le> width ext \<and> width ext \<le> width (maxImageExtent caps)
     \<and> height (minImageExtent caps) \<le> height ext \<and> height ext \<le> height (maxImageExtent caps)"

text \<open>
  What the Vulkan specification promises of the surface capabilities a platform
  reports: the minimum extent does not exceed the maximum, and a current extent that is
  not the sentinel lies within them.  It is a property of the input, not of the
  program.
\<close>

definition surface_contract :: "VkSurfaceCapabilitiesKHR \<Rightarrow> bool" where
  "surface_contract caps \<longleftrightarrow>
     width (minImageExtent caps) \<le> width (maxImageExtent caps)
     \<and> height (minImageExtent caps) \<le> height (maxImageExtent caps)
     \<and> (width (currentExtent caps) \<noteq> - 1 \<longrightarrow> extent_in_range caps (currentExtent caps))"

text \<open>
  "Clamped into \<open>[minImageExtent, maxImageExtent]\<close>", component by component, as the
  specification of the program words it (this definition is not taken from the
  source; \<open>resolve_extent\<close> is).
\<close>

definition clamped_into :: "VkSurfaceCapabilitiesKHR \<Rightarrow> VkExtent2D \<Rightarrow> VkExtent2D" where
  "clamped_into caps ext =
     \<lparr>width = max (width (minImageExtent caps)) (min (width (maxImageExtent caps)) (width ext)),
      height = max (height (minImageExtent caps)) (min (height (maxImageExtent caps)) (height ext))\<rparr>"

text \<open>
  The environments in which setup gets as far as the loop over the swapchain images,
  and in which one pass of that loop runs to its end.
\<close>

definition reaches_image_loop :: "setup_env \<Rightarrow> bool" where
  "reaches_image_loop env \<longleftrightarrow>
     r_vkCreateInstance env = VK_SUCCESS
     \<and> r_glfwCreateWindowSurface env = VK_SUCCESS
     \<and> deviceCount env \<noteq> 0
     \<and> r_vkCreateDevice env = VK_SUCCESS
     \<and> formatCount env \<noteq> 0 \<and> presentModeCount env \<noteq> 0
     \<and> resolve_extent (capabilities env) (framebufferSize env) \<noteq> None
     \<and> r_vkCreateSwapchainKHR env = VK_SUCCESS"

definition sync_succeeds :: "sync_env \<Rightarrow> bool" where
  "sync_succeeds r \<longleftrightarrow>
     r_imageAvailable r = VK_SUCCESS \<and> r_renderFinished r = VK_SUCCESS
     \<and> r_inFlightFence r = VK_SUCCESS"

definition pass_succeeds :: "nat \<Rightarrow> image_env \<Rightarrow> bool" where
  "pass_succeeds n ie \<longleftrightarrow>
     r_vkCreateImageView ie = VK_SUCCESS
     \<and> vert_spv ie \<noteq> None \<and> frag_spv ie \<noteq> None
     \<and> r_vsShaderModule ie = VK_SUCCESS \<and> r_fsShaderModule ie = VK_SUCCESS
     \<and> r_vkCreatePipelineLayout ie = VK_SUCCESS
     \<and> r_vkCreateGraphicsPipelines ie = VK_SUCCESS
     \<and> r_vkCreateCommandPool ie = VK_SUCCESS
     \<and> r_vkAllocateCommandBuffers ie = VK_SUCCESS
     \<and> list_all (\<lambda>k. sync_succeeds (r_sync ie k)) [0..<n]"

text \<open>The creations of synchronization objects (semaphores and fences).\<close>

fun creates_sync :: "event \<Rightarrow> bool" where
  "creates_sync (vkCreate (semaphore s)) = True"
| "creates_sync (vkCreate (inFlightFences i)) = True"
| "creates_sync _ = False"

text \<open>
  Where a call uses a swapchain image index, and in which role.
\<close>

datatype image_role = Acquired | BarrierImage | AttachmentView | Presented

fun image_uses :: "event \<Rightarrow> (image_role \<times> u32) list" where
  "image_uses (vkAcquireNextImageKHR s i) = [(Acquired, i)]"
| "image_uses (vkCmd s (vkCmdPipelineBarrier src dst b)) = [(BarrierImage, barrier_image b)]"
| "image_uses (vkCmd s (vkCmdBeginRendering info)) =
     map (\<lambda>a. (AttachmentView, imageView a)) (pColorAttachments info)"
| "image_uses (vkQueuePresentKHR q info) = map (\<lambda>i. (Presented, i)) (pImageIndices info)"
| "image_uses _ = []"

subsection \<open>Concrete inputs\<close>

text \<open>A pass in which the window stays open and every call succeeds, acquiring image \<open>i\<close>.\<close>

definition example_frame :: "u32 \<Rightarrow> frame_env" where
  "example_frame i = \<lparr>shouldClose = False, r_vkWaitForFences = VK_SUCCESS,
     r_vkAcquireNextImageKHR = VK_SUCCESS, imageIndex = i,
     r_vkBeginCommandBuffer = VK_SUCCESS, r_vkEndCommandBuffer = VK_SUCCESS,
     r_vkQueueSubmit = VK_SUCCESS, r_vkQueuePresentKHR = VK_SUCCESS\<rparr>"

definition example_members :: app where
  "example_members =
     \<lparr>extent = \<lparr>width = 0, height = 0\<rparr>,
      viewport = \<lparr>vp_x = FloatLit 0, vp_y = FloatLit 0, vp_width = FloatLit 0,
                  vp_height = FloatLit 0, minDepth = FloatLit 0, maxDepth = FloatLit 0\<rparr>,
      scissor = \<lparr>offset = (0, 0), rect_extent = \<lparr>width = 0, height = 0\<rparr>\<rparr>,
      swapChainImages_size = 0,
      swapChainImageViews_size = 0\<rparr>"

text \<open>
  A setup in which every call succeeds, on a platform with a fixed extent and a
  swapchain of two images.
\<close>

definition example_image :: image_env where
  "example_image =
     \<lparr>r_vkCreateImageView = VK_SUCCESS, vert_spv = Some 1504, frag_spv = Some 572,
      r_vsShaderModule = VK_SUCCESS, r_fsShaderModule = VK_SUCCESS,
      r_vkCreatePipelineLayout = VK_SUCCESS, r_vkCreateGraphicsPipelines = VK_SUCCESS,
      r_vkCreateCommandPool = VK_SUCCESS, r_vkAllocateCommandBuffers = VK_SUCCESS,
      r_sync = (\<lambda>k. \<lparr>r_imageAvailable = VK_SUCCESS, r_renderFinished = VK_SUCCESS,
                       r_inFlightFence = VK_SUCCESS\<rparr>)\<rparr>"

definition example_setup :: setup_env where
  "example_setup =
     \<lparr>layerFound = True,
      r_vkCreateInstance = VK_SUCCESS, r_glfwCreateWindowSurface = VK_SUCCESS,
      deviceCount = 1, r_vkCreateDevice = VK_SUCCESS,
      capabilities = \<lparr>currentExtent = \<lparr>width = 1080, height = 720\<rparr>,
                      minImageExtent = \<lparr>width = 1080, height = 720\<rparr>,
                      maxImageExtent = \<lparr>width = 1080, height = 720\<rparr>\<rparr>,
      formatCount = 1, presentModeCount = 1, framebufferSize = (1080, 720),
      r_vkCreateSwapchainKHR = VK_SUCCESS,
      images = [example_image, example_image]\<rparr>"

text \<open>The trace of three completed passes with two slots.\<close>

definition three_frames :: "event list" where
  "three_frames = fst (mainLoop 2 example_members [example_frame 0, example_frame 1, example_frame 0])"

text \<open>Surface capabilities with the undefined-extent sentinel.\<close>

definition undefined_extent_caps :: VkSurfaceCapabilitiesKHR where
  "undefined_extent_caps =
     \<lparr>currentExtent = \<lparr>width = 0xFFFFFFFF, height = 0xFFFFFFFF\<rparr>,
      minImageExtent = \<lparr>width = 1, height = 1\<rparr>,
      maxImageExtent = \<lparr>width = 4096, height = 4096\<rparr>\<rparr>"

text \<open>
  Setups in which a compiled shader cannot be opened (the vertex shader in the pass of
  the first image, the fragment shader in the pass of the second), in which the vertex
  shader file is empty, and in which the instance cannot be created.
\<close>

definition vertex_shader_missing :: setup_env where
  "vertex_shader_missing = example_setup\<lparr>images := [example_image\<lparr>vert_spv := None\<rparr>, example_image]\<rparr>"

definition fragment_shader_missing_later :: setup_env where
  "fragment_shader_missing_later =
     example_setup\<lparr>images := [example_image, example_image\<lparr>frag_spv := None\<rparr>]\<rparr>"

definition vertex_shader_empty :: setup_env where
  "vertex_shader_empty =
     example_setup\<lparr>images := [example_image\<lparr>vert_spv := Some 0\<rparr>, example_image\<lparr>vert_spv := Some 0\<rparr>]\<rparr>"

definition instance_fails :: setup_env where
  "instance_fails = example_setup\<lparr>r_vkCreateInstance := VK_ERROR_INITIALIZATION_FAILED\<rparr>"

text \<open>
  A pass in which only the fence wait fails, and the run of two completed passes
  followed by it.
\<close>

definition wait_fails :: frame_env where
  "wait_fails = (example_frame 0)\<lparr>r_vkWaitForFences := VK_ERROR_DEVICE_LOST\<rparr>"

definition wait_fails_run :: "event list" where
  "wait_fails_run =
     fst (mainLoop MAX_FRAMES_IN_FLIGHT example_members [example_frame 0, example_frame 1, wait_fails])"


text \<open>
  Two whole runs of the example setup: the window is closed after one pass; the
  submission of the first pass fails.
\<close>

definition example_run :: "event list \<times> loop_status" where
  "example_run = run 2 example_setup [example_frame 0, (example_frame 0)\<lparr>shouldClose := True\<rparr>] example_members"

definition example_aborted_run :: "event list \<times> loop_status" where
  "example_aborted_run =
     run 2 example_setup [(example_frame 0)\<lparr>r_vkQueueSubmit := VK_ERROR_DEVICE_LOST\<rparr>] example_members"

section \<open>Lemmas about the frame loop\<close>

lemma frame_complete:
  assumes "r_vkBeginCommandBuffer e = VK_SUCCESS" "r_vkEndCommandBuffer e = VK_SUCCESS" "r_vkQueueSubmit e = VK_SUCCESS"
  shows "frame n st c e =
       ([vkWaitForFences c, vkResetFences c,
         vkAcquireNextImageKHR (imageAvailableSemaphores c) (imageIndex e)]
        @ frame_record st c (imageIndex e)
        @ [vkQueueSubmit graphicsQueue
             \<lparr>pWaitSemaphores = [imageAvailableSemaphores c],
              pWaitDstStageMask = [VK_PIPELINE_STAGE_COLOR_ATTACHMENT_OUTPUT_BIT],
              pCommandBuffers = [c],
              pSignalSemaphores = [renderFinishedSemaphores c]\<rparr> c,
           vkQueuePresentKHR presentQueue
             \<lparr>present_pWaitSemaphores = [renderFinishedSemaphores c],
              swapchainCount = 1, pImageIndices = [imageIndex e]\<rparr>,
           glfwPollEvents],
        Some ((c + 1) mod n))"
  using assms
  by (simp add: frame_def frame_wait_acquire_def frame_submit_def frame_present_def submitInfo_def presentInfo_def)

lemma frame_prefix:
  "prefix (filter (\<lambda>x. \<not> is_cerr x) (fst (frame n st c e)))
          (fst (frame n st c (e\<lparr>r_vkBeginCommandBuffer := VK_SUCCESS,
                   r_vkEndCommandBuffer := VK_SUCCESS, r_vkQueueSubmit := VK_SUCCESS\<rparr>)))"
  by (simp add: frame_def frame_wait_acquire_def frame_record_def frame_submit_def frame_present_def)

lemma waited_frame: "waited_slots (fst (frame n st c e)) = [c]"
  by (simp add: frame_def frame_wait_acquire_def frame_record_def frame_submit_def frame_present_def recorded_commands_def)

lemma waited_slots_append: "waited_slots (a @ b) = waited_slots a @ waited_slots b"
  by (induction a rule: waited_slots.induct) simp_all

lemma three_passes: 
  assumes "completes e1" "completes e2" "completes e3"
  shows "waited_slots (fst (mainLoop MAX_FRAMES_IN_FLIGHT st [e1, e2, e3])) = [0, 1, 0]"
  using assms waited_frame
  by (simp add: mainLoop_def MAX_FRAMES_IN_FLIGHT_def completes_def frame_complete waited_slots_append frame_record_def recorded_commands_def split: prod.splits)

lemma advance_ready:
  assumes "permitted m x" "advance m x = (p', r')" "p' \<noteq> Some s" "r' s"
  shows "(fst m = Some s \<and> x = vkResetFences s)
         \<or> (fst m \<noteq> Some s \<and> snd m s \<and> \<not> fence_event s x)"
proof (cases m)
  case (Pair p r)
  show ?thesis
  proof (cases p)
    case None
    with Pair assms show ?thesis by (cases x) (auto split: if_splits)
  next
    case (Some q)
    with Pair assms show ?thesis by (auto split: if_splits)
  qed
qed

lemma advance_pending:
  assumes "permitted m x" "advance m x = (Some s, r')"
  shows "x = vkWaitForFences s"
proof (cases m)
  case (Pair p r)
  show ?thesis
  proof (cases p)
    case None
    with Pair assms show ?thesis by (cases x) auto
  next
    case (Some q)
    with Pair assms show ?thesis by auto
  qed
qed

lemma permitted_write:
  "permitted m ev \<Longrightarrow> buffer_of ev = Some s \<Longrightarrow> fst m \<noteq> Some s \<and> snd m s"
  by (cases m; cases "fst m") auto

lemma guarded_split:
  "guarded m tr \<Longrightarrow> tr = pre @ ev # post \<Longrightarrow> buffer_of ev = Some s \<Longrightarrow>
     (fst m \<noteq> Some s \<and> snd m s \<and> (\<forall>x\<in>set pre. \<not> fence_event s x))
     \<or> (fst m = Some s \<and> (\<exists>b. pre = vkResetFences s # b \<and> (\<forall>x\<in>set b. \<not> fence_event s x)))
     \<or> (\<exists>a b. pre = a @ vkWaitForFences s # vkResetFences s # b
              \<and> (\<forall>x\<in>set b. \<not> fence_event s x))"
proof (induction tr arbitrary: m pre)
  case Nil
  then show ?case by simp
next
  case (Cons x t)
  show ?case
  proof (cases pre)
    case Nil
    with Cons.prems have "permitted m ev" by simp
    from permitted_write[OF this Cons.prems(3)] Nil show ?thesis by simp
  next
    case (Cons y pre')
    then have y: "y = x" and t: "t = pre' @ ev # post" using Cons.prems(2) by simp_all
    have px: "permitted m x" and g: "guarded (advance m x) t" using Cons.prems(1) by simp_all
    obtain p' r' where a: "advance m x = (p', r')" by (cases "advance m x")
    from Cons.IH[OF g t Cons.prems(3)] a
    consider "p' \<noteq> Some s" "r' s" "\<forall>z\<in>set pre'. \<not> fence_event s z"
      | b where "p' = Some s" "pre' = vkResetFences s # b" "\<forall>z\<in>set b. \<not> fence_event s z"
      | a b where "pre' = a @ vkWaitForFences s # vkResetFences s # b"
                  "\<forall>z\<in>set b. \<not> fence_event s z"
      by auto
    then show ?thesis
    proof cases
      case 1
      from advance_ready[OF px a 1(1,2)] show ?thesis
      proof
        assume "fst m = Some s \<and> x = vkResetFences s"
        with 1(3) Cons y show ?thesis by simp
      next
        assume "fst m \<noteq> Some s \<and> snd m s \<and> \<not> fence_event s x"
        with 1(3) Cons y show ?thesis by simp
      qed
    next
      case 2
      from advance_pending[OF px] a 2(1) have "x = vkWaitForFences s" by simp
      then have "pre = [] @ vkWaitForFences s # vkResetFences s # b" using Cons y 2(2) by simp
      with 2(3) show ?thesis by blast
    next
      case 3
      then have "pre = (y # a) @ vkWaitForFences s # vkResetFences s # b" using Cons by simp
      with 3(2) show ?thesis by blast
    qed
  qed
qed

lemma guarded_append:
  "guarded m (a @ b) = (guarded m a \<and> guarded (foldl advance m a) b)"
  by (induction a arbitrary: m) auto

lemma guarded_frame:
  "guarded (None, r) (fst (frame n st c e))
   \<and> fst (foldl advance (None, r) (fst (frame n st c e))) = None"
  by (simp add: frame_def frame_wait_acquire_def frame_record_def frame_submit_def
      frame_present_def recorded_commands_def)

lemma guarded_mainLoop_from: "guarded (None, r) (fst (mainLoop_from n st c es))"
proof (induction es arbitrary: r c)
  case Nil
  then show ?case by simp
next
  case (Cons e es)
  show ?case
  proof (cases "shouldClose e")
    case True
    then show ?thesis by simp
  next
    case False
    obtain evs k where fr: "frame n st c e = (evs, k)" by (cases "frame n st c e")
    have g: "guarded (None, r) evs" and f: "fst (foldl advance (None, r) evs) = None"
      using guarded_frame[of r n st c e] fr by simp_all
    obtain r' where m: "foldl advance (None, r) evs = (None, r')"
      using f by (cases "foldl advance (None, r) evs") simp
    show ?thesis
    proof (cases k)
      case None
      with False fr g show ?thesis by simp
    next
      case (Some c')
      obtain evs' s where ml: "mainLoop_from n st c' es = (evs', s)"
        by (cases "mainLoop_from n st c' es")
      have "guarded (None, r') evs'" using Cons.IH[of r' c'] ml by simp
      with False fr g Some ml m show ?thesis by (simp add: guarded_append)
    qed
  qed
qed

lemma waited_slots_Cons: "waited_slots (x # t) = waited_slots [x] @ waited_slots t"
  using waited_slots_append[of "[x]" t] by simp

lemma cyclic_split:
  "cyclic n j tr \<Longrightarrow> tr = pre @ ev # post \<Longrightarrow> s \<in> set (slots_mentioned ev)
     \<Longrightarrow> j + length (waited_slots (pre @ [ev])) = Suc k \<Longrightarrow> s = k mod n"
proof (induction tr arbitrary: j pre)
  case Nil
  then show ?case by simp
next
  case (Cons x t)
  show ?case
  proof (cases pre)
    case Nil
    with Cons.prems show ?thesis by (auto simp: list_all_iff)
  next
    case (Cons y pre')
    then have y: "y = x" and t: "t = pre' @ ev # post" using Cons.prems(2) by simp_all
    have g: "cyclic n (j + length (waited_slots [x])) t" using Cons.prems(1) by simp
    have "waited_slots (pre @ [ev]) = waited_slots [x] @ waited_slots (pre' @ [ev])"
      using Cons y waited_slots_Cons[of x "pre' @ [ev]"] by simp
    then have "j + length (waited_slots [x]) + length (waited_slots (pre' @ [ev])) = Suc k"
      using Cons.prems(4) by simp
    from Cons.IH[OF g t Cons.prems(3) this] show ?thesis .
  qed
qed

lemma cyclic_append:
  "cyclic n j (a @ b) = (cyclic n j a \<and> cyclic n (j + length (waited_slots a)) b)"
proof (induction a arbitrary: j)
  case Nil
  then show ?case by simp
next
  case (Cons x a)
  have "length (waited_slots (x # a)) = length (waited_slots [x]) + length (waited_slots a)"
    using waited_slots_Cons[of x a] by simp
  then show ?case using Cons.IH by (simp add: add.assoc)
qed

lemma cyclic_frame: "cyclic n j (fst (frame n st (j mod n) e))"
  by (simp add: frame_def frame_wait_acquire_def frame_record_def frame_submit_def
      frame_present_def recorded_commands_def submitInfo_def presentInfo_def)

lemma frame_next: "frame n st c e = (evs, Some c') \<Longrightarrow> c' = (c + 1) mod n"
  by (auto simp: frame_def split: if_splits)

lemma cyclic_mainLoop_from: "cyclic n j (fst (mainLoop_from n st (j mod n) es))"
proof (induction es arbitrary: j)
  case Nil
  then show ?case by simp
next
  case (Cons e es)
  show ?case
  proof (cases "shouldClose e")
    case True
    then show ?thesis by simp
  next
    case False
    obtain evs r where fr: "frame n st (j mod n) e = (evs, r)" by (cases "frame n st (j mod n) e")
    have g: "cyclic n j evs" using cyclic_frame[of n j st e] fr by simp
    have w: "waited_slots evs = [j mod n]" using waited_frame[of n st "j mod n" e] fr by simp
    show ?thesis
    proof (cases r)
      case None
      with False fr g show ?thesis by simp
    next
      case (Some c')
      then have "c' = (j mod n + 1) mod n" using frame_next[of n st "j mod n" e evs c'] fr by simp
      then have c': "c' = Suc j mod n" by (simp add: mod_Suc_eq)
      obtain evs' s where ml: "mainLoop_from n st c' es = (evs', s)"
        by (cases "mainLoop_from n st c' es")
      have "cyclic n (Suc j) evs'"
        using Cons.IH[of "Suc j"] ml c' by simp
      with False fr g Some ml w show ?thesis by (simp add: cyclic_append)
    qed
  qed
qed

lemma frame_ignores_wait: "frame n st c (e\<lparr>r_vkWaitForFences := r\<rparr>) = frame n st c e"
  by (simp add: frame_def frame_wait_acquire_def)

lemma mainLoop_from_ignores_wait:
  "mainLoop_from n st k (map (\<lambda>e. e\<lparr>r_vkWaitForFences := f e\<rparr>) es) = mainLoop_from n st k es"
  by (induction es arbitrary: k) (simp_all add: frame_ignores_wait)


section \<open>Lemmas about setup and teardown\<close>

lemma no_destroy_call: "\<not> destroys_resource ev \<Longrightarrow> no_destroy (call ev)"
  by (simp add: no_destroy_def call_def)

lemma no_destroy_check: "\<not> destroys_resource ev \<Longrightarrow> no_destroy (check ev r msg)"
  by (simp add: no_destroy_def check_def)

lemma no_destroy_require: "no_destroy (require c msg)"
  by (simp add: no_destroy_def require_def)

lemma no_destroy_warn_unless: "no_destroy (warn_unless c msg)"
  by (simp add: no_destroy_def warn_unless_def)

lemma no_destroy_set_extent: "no_destroy (set_extent caps fb)"
  by (simp add: no_destroy_def set_extent_def split: option.splits)

lemma no_destroy_assign: "no_destroy (assign g)"
  by (simp add: no_destroy_def assign_def)

lemma no_destroy_sync: "no_destroy (create_sync_slot r i)"
  by (simp add: no_destroy_def create_sync_slot_def)

lemma no_destroyD:
  assumes "no_destroy f" "f st = (evs, r)"
  shows "\<forall>x\<in>set evs. \<not> destroys_resource x"
proof -
  have "\<forall>x\<in>set (fst (f st)). \<not> destroys_resource x"
    using assms(1) unfolding no_destroy_def by blast
  then show ?thesis using assms(2) by simp
qed

lemma no_destroy_steps: "list_all no_destroy fs \<Longrightarrow> no_destroy (steps fs)"
proof (induction fs)
  case Nil
  then show ?case by (simp add: no_destroy_def)
next
  case (Cons f fs)
  then have f: "no_destroy f" and r: "no_destroy (steps fs)" by simp_all
  show ?case
    unfolding no_destroy_def
  proof
    fix st
    obtain evs st' b where fs: "f st = (evs, st', b)" by (cases "f st") auto
    obtain evs' r' where ss: "steps fs st' = (evs', r')" by (cases "steps fs st'")
    have "\<forall>x\<in>set evs. \<not> destroys_resource x" using f fs by (rule no_destroyD)
    moreover have "\<forall>x\<in>set evs'. \<not> destroys_resource x" using r ss by (rule no_destroyD)
    ultimately show "\<forall>x\<in>set (fst (steps (f # fs) st)). \<not> destroys_resource x"
      using fs ss by (cases b) auto
  qed
qed

lemma no_destroy_init_image: "no_destroy (init_image n ie i)"
  unfolding init_image_def
  by (rule no_destroy_steps)
     (simp add: no_destroy_call no_destroy_check no_destroy_require no_destroy_assign
        no_destroy_steps no_destroy_sync list_all_iff)

lemma no_destroy_image_loop: "no_destroy (image_loop n ies i)"
proof (induction ies arbitrary: i)
  case Nil
  then show ?case by (simp add: no_destroy_def)
next
  case (Cons ie ies)
  show ?case
    unfolding image_loop.simps
    by (rule no_destroy_steps) (simp add: no_destroy_init_image Cons.IH)
qed

lemma no_destroy_initVulkan: "no_destroy (initVulkan n env)"
  unfolding initVulkan_def
  by (rule no_destroy_steps)
     (simp add: no_destroy_call no_destroy_check no_destroy_require no_destroy_assign
        no_destroy_warn_unless no_destroy_set_extent no_destroy_image_loop)

lemma frame_events: "\<forall>x\<in>set (fst (frame n st c e)). \<not> destroys_resource x"
  by (simp add: frame_def frame_wait_acquire_def frame_record_def frame_submit_def
      frame_present_def recorded_commands_def)

lemma mainLoop_from_events:
  "\<forall>x\<in>set (fst (mainLoop_from n st c es)). \<not> destroys_resource x"
proof (induction es arbitrary: c)
  case Nil
  then show ?case by simp
next
  case (Cons e es)
  obtain evs r where fr: "frame n st c e = (evs, r)" by (cases "frame n st c e")
  have g: "\<forall>x\<in>set evs. \<not> destroys_resource x" using frame_events[of n st c e] fr by simp
  show ?case
  proof (cases r)
    case None
    with fr g show ?thesis by simp
  next
    case (Some c')
    obtain evs' s where ml: "mainLoop_from n st c' es = (evs', s)"
      by (cases "mainLoop_from n st c' es")
    have "\<forall>x\<in>set evs'. \<not> destroys_resource x" using Cons.IH[of c'] ml by simp
    with fr g Some ml show ?thesis by auto
  qed
qed

lemma cleanup_events: "\<forall>x\<in>set (tl (cleanup n st)). \<not> enqueues_work x"
  by (auto simp: cleanup_def)

lemma cleanup_Cons: "cleanup n st = vkDeviceWaitIdle # tl (cleanup n st)"
  by (simp add: cleanup_def)

lemma steps_Cons_True:
  "steps (f # fs) st = (t, st', True) \<Longrightarrow>
     \<exists>t1 s1 t2. f st = (t1, s1, True) \<and> steps fs s1 = (t2, st', True) \<and> t = t1 @ t2"
  by (auto split: prod.splits bool.splits)

lemma check_True: "check ev r msg st = (t, st', True) \<Longrightarrow> st' = st \<and> r = VK_SUCCESS \<and> t = [ev]"
  by (auto simp: check_def split: if_splits)

lemma require_True: "require c msg st = (t, st', True) \<Longrightarrow> st' = st \<and> c \<and> t = []"
  by (auto simp: require_def split: if_splits)

lemma call_True: "call ev st = (t, st', b) \<Longrightarrow> st' = st \<and> t = [ev]"
  by (auto simp: call_def)

lemma assign_True: "assign g st = (t, st', b) \<Longrightarrow> st' = g st \<and> t = []"
  by (auto simp: assign_def)

lemma warn_unless_True: "warn_unless c msg st = (t, st', b) \<Longrightarrow> st' = st"
  by (auto simp: warn_unless_def split: if_splits)

lemma set_extent_True:
  "set_extent caps fb st = (t, st', True) \<Longrightarrow>
     resolve_extent caps fb = Some (extent st') \<and> st' = st\<lparr>extent := extent st'\<rparr> \<and> t = []"
  by (auto simp: set_extent_def split: option.splits)

lemma create_sync_slot_state: "fst (snd (create_sync_slot r i st)) = st"
  by (simp add: create_sync_slot_def)

lemma steps_Nil_True: "steps [] st = (t, st', b) \<Longrightarrow> st' = st \<and> t = [] \<and> b"
  by simp

lemma sync_state:
  "steps (map (\<lambda>k. create_sync_slot (r k) k) ks) st = (t, st', b) \<Longrightarrow> st' = st"
proof (induction ks arbitrary: t st' b)
  case Nil
  then show ?case by simp
next
  case (Cons k ks)
  obtain e1 b1 where c: "create_sync_slot (r k) k st = (e1, st, b1)"
    using create_sync_slot_state[of "r k" k st]
    by (cases "create_sync_slot (r k) k st") auto
  show ?case
  proof (cases b1)
    case True
    obtain e2 s2 b2 where s: "steps (map (\<lambda>k. create_sync_slot (r k) k) ks) st = (e2, s2, b2)"
      by (cases "steps (map (\<lambda>k. create_sync_slot (r k) k) ks) st") auto
    from Cons.IH[OF s] have "s2 = st" .
    with Cons.prems c True s show ?thesis by simp
  next
    case False
    with Cons.prems c show ?thesis by simp
  qed
qed

lemma init_image_state:
  assumes "init_image n ie i st = (t, st', True)"
  shows "st' = set_viewport_scissor st"
  using assms unfolding init_image_def
  by (auto simp del: steps.simps
        dest!: steps_Cons_True steps_Nil_True check_True require_True call_True assign_True sync_state)

lemma set_viewport_scissor_idem:
  "set_viewport_scissor (set_viewport_scissor st) = set_viewport_scissor st"
  by (simp add: set_viewport_scissor_def)

lemma image_loop_state:
  "image_loop n ies i st = (t, st', True) \<Longrightarrow>
     st' = (if ies = [] then st else set_viewport_scissor st)"
proof (induction ies arbitrary: i st t)
  case Nil
  then show ?case by simp
next
  case (Cons ie ies)
  from Cons.prems obtain t1 s1 t3 where
    a: "init_image n ie i st = (t1, s1, True)" and
    c: "image_loop n ies (Suc i) s1 = (t3, st', True)"
    unfolding image_loop.simps
    by (auto simp del: steps.simps dest!: steps_Cons_True steps_Nil_True)
  from init_image_state[OF a] Cons.IH[OF c] show ?case
    by (simp add: set_viewport_scissor_idem)
qed

lemma initVulkan_state:
  assumes "initVulkan n env st = (t, st', True)"
  shows "\<exists>ext. resolve_extent (capabilities env) (framebufferSize env) = Some ext
         \<and> st' = (if images env = [] then id else set_viewport_scissor)
                 (st\<lparr>extent := ext,
                      swapChainImages_size := length (images env),
                      swapChainImageViews_size := length (images env)\<rparr>)"
proof -
  from assms obtain s1 where
    e: "resolve_extent (capabilities env) (framebufferSize env) = Some (extent s1)"
    and s1: "s1 = st\<lparr>extent := extent s1\<rparr>"
    and l: "st' = (if images env = [] then id else set_viewport_scissor)
                    (s1\<lparr>swapChainImages_size := length (images env),
                        swapChainImageViews_size := length (images env)\<rparr>)"
    unfolding initVulkan_def
    by (auto simp del: steps.simps
          dest!: steps_Cons_True steps_Nil_True check_True require_True call_True assign_True
                 warn_unless_True set_extent_True image_loop_state)
  have "s1\<lparr>swapChainImages_size := length (images env),
           swapChainImageViews_size := length (images env)\<rparr>
        = st\<lparr>extent := extent s1, swapChainImages_size := length (images env),
              swapChainImageViews_size := length (images env)\<rparr>"
    by (subst s1) simp
  with e l show ?thesis by auto
qed

lemma initVulkan_extent:
  "initVulkan n env u = (t, st, True) \<Longrightarrow>
     resolve_extent (capabilities env) (framebufferSize env) = Some (extent st)"
  by (drule initVulkan_state) (auto simp: set_viewport_scissor_def)

lemma std_clamp_Some:
  "lo \<le> hi \<Longrightarrow> std_clamp v lo hi = Some (max lo (min hi v))"
  by (auto simp: std_clamp_def max_def min_def)

lemma clamped_into_id: "extent_in_range caps ext \<Longrightarrow> clamped_into caps ext = ext"
  by (cases ext) (simp add: extent_in_range_def clamped_into_def min_absorb2 max_absorb2)

lemma clamped_into_range:
  "width (minImageExtent caps) \<le> width (maxImageExtent caps) \<Longrightarrow>
   height (minImageExtent caps) \<le> height (maxImageExtent caps) \<Longrightarrow>
     extent_in_range caps (clamped_into caps ext)"
  by (simp add: extent_in_range_def clamped_into_def)

lemma steps_single: "steps [f] st = f st"
proof (cases "f st")
  case (fields evs st' b)
  then show ?thesis by (cases b) simp_all
qed

lemma sync_all_succeed:
  "list_all (\<lambda>k. sync_succeeds (r k)) ks \<Longrightarrow>
     \<exists>t. steps (map (\<lambda>k. create_sync_slot (r k) k) ks) st = (t, st, True)"
proof (induction ks)
  case Nil
  then show ?case by simp
next
  case (Cons k ks)
  then obtain t where t: "steps (map (\<lambda>k. create_sync_slot (r k) k) ks) st = (t, st, True)"
    by auto
  have "\<exists>t1. create_sync_slot (r k) k st = (t1, st, True)"
    using Cons.prems by (simp add: create_sync_slot_def sync_succeeds_def)
  then obtain t1 where "create_sync_slot (r k) k st = (t1, st, True)" ..
  with t show ?case by simp
qed

lemma init_image_succeeds:
  assumes "pass_succeeds n ie"
  shows "\<exists>t. init_image n ie i st = (t, set_viewport_scissor st, True)"
proof -
  from assms have "list_all (\<lambda>k. sync_succeeds (r_sync ie k)) [0..<n]"
    by (simp add: pass_succeeds_def)
  from sync_all_succeed[OF this, of "set_viewport_scissor st"]
  obtain t where "steps (map (\<lambda>k. create_sync_slot (r_sync ie k) k) [0..<n])
                    (set_viewport_scissor st) = (t, set_viewport_scissor st, True)" ..
  with assms show ?thesis
    by (auto simp: pass_succeeds_def init_image_def check_def call_def require_def assign_def)
qed

lemma image_loop_passes:
  "list_all (pass_succeeds n) ds \<Longrightarrow>
     \<exists>td sd. \<forall>ys. image_loop n (ds @ ys) i st =
        (case image_loop n ys (i + length ds) sd of (t', r) \<Rightarrow> (td @ t', r))"
proof (induction ds arbitrary: i st)
  case Nil
  have "\<forall>ys. image_loop n ([] @ ys) i st =
        (case image_loop n ys (i + length ([] :: image_env list)) st of (t', r) \<Rightarrow> ([] @ t', r))"
    by simp
  then show ?case by blast
next
  case (Cons d ds)
  then have d: "pass_succeeds n d" and ds: "list_all (pass_succeeds n) ds" by simp_all
  from init_image_succeeds[OF d, of i st]
  obtain t1 where t1: "init_image n d i st = (t1, set_viewport_scissor st, True)" ..
  from Cons.IH[OF ds, of "Suc i" "set_viewport_scissor st"]
  obtain td sd where r: "\<And>ys. image_loop n (ds @ ys) (Suc i) (set_viewport_scissor st) =
        (case image_loop n ys (Suc i + length ds) sd of (t', r) \<Rightarrow> (td @ t', r))"
    by blast
  have "\<forall>ys. image_loop n ((d # ds) @ ys) i st =
        (case image_loop n ys (i + length (d # ds)) sd of (t', r) \<Rightarrow> ((t1 @ td) @ t', r))"
  proof
    fix ys
    have "image_loop n ((d # ds) @ ys) i st =
           (case image_loop n (ds @ ys) (Suc i) (set_viewport_scissor st) of
              (t', r) \<Rightarrow> (t1 @ t', r))"
      using t1 steps_single[of "image_loop n (ds @ ys) (Suc i)"]
      by (simp del: steps.simps(2) add: steps.simps(2)[of "init_image n d i"] split: prod.splits)
    then show "image_loop n ((d # ds) @ ys) i st =
        (case image_loop n ys (i + length (d # ds)) sd of (t', r) \<Rightarrow> ((t1 @ td) @ t', r))"
      by (simp add: r split: prod.splits)
  qed
  then show ?case by blast
qed

lemma init_image_shader_missing:
  assumes "r_vkCreateImageView ie = VK_SUCCESS" "vert_spv ie = None \<or> frag_spv ie = None"
  shows "init_image n ie i st =
     ([vkCreate (swapChainImageViews i), runtime_compile, open_spv vertex_stage]
      @ (if vert_spv ie = None then [cerr ''Failed to read vertex shader file'']
         else [open_spv fragment_stage, cerr ''Failed to load fragment shader file'']),
      st, False)"
  using assms
  by (auto simp: init_image_def check_def call_def require_def assign_def)

lemma initVulkan_reaches:
  assumes "reaches_image_loop env"
  shows "\<exists>p0 s0. vkCreate swapChain \<in> set p0 \<and>
           initVulkan n env st =
             (case image_loop n (images env) 0 s0 of (t', r) \<Rightarrow> (p0 @ t', r))"
proof -
  from assms obtain ext where
    e: "resolve_extent (capabilities env) (framebufferSize env) = Some ext"
    by (auto simp: reaches_image_loop_def)
  let ?p0 = "(if layerFound env then [] else
       [cerr ''Requested validation layer: VK_LAYER_KHRONOS_validation is not availible''])
     @ [vkCreate instance_handle, vkCreate surface, vkEnumeratePhysicalDevices,
        vkEnumeratePhysicalDevices, vkCreate device, vkGetDeviceQueue graphicsQueue,
        vkGetDeviceQueue presentQueue, vkCreate swapChain, vkGetSwapchainImagesKHR,
        vkGetSwapchainImagesKHR]"
  let ?s0 = "st\<lparr>extent := ext, swapChainImages_size := length (images env),
               swapChainImageViews_size := length (images env)\<rparr>"
  have "initVulkan n env st =
             (case image_loop n (images env) 0 ?s0 of (t', r) \<Rightarrow> (?p0 @ t', r))"
    using assms e steps_single[of "image_loop n (images env) 0"]
    by (simp del: steps.simps(2)
          add: initVulkan_def reaches_image_loop_def check_def call_def require_def assign_def
               warn_unless_def set_extent_def
               steps.simps(2)[of "warn_unless c m" for c m]
               steps.simps(2)[of "check a b c" for a b c]
               steps.simps(2)[of "call a" for a]
               steps.simps(2)[of "require a b" for a b]
               steps.simps(2)[of "assign a" for a]
               steps.simps(2)[of "set_extent a b" for a b]
          split: prod.splits)
  moreover have "vkCreate swapChain \<in> set ?p0" by simp
  ultimately show ?thesis by blast
qed

lemma example_setup_completes:
  "snd (snd (initVulkan 2 example_setup example_members)) = True"
  by code_simp

lemma example_setup_extent:
  "extent (fst (snd (initVulkan 2 example_setup example_members))) = \<lparr>width = 1080, height = 720\<rparr>"
  by code_simp

lemma example_run_status: "snd example_run = Exited"
  by code_simp

lemma example_aborted_run_status: "snd example_aborted_run = Returned"
  by code_simp

section \<open>The claims\<close>

text \<open>
  C1.  As stated the claim fails: the result of \<^verbatim>\<open>vkWaitForFences\<close> is discarded (line
  593).  With two slots, let the first two passes complete and let the wait of the
  third pass, on the fence the first pass submitted with, return
  \<^verbatim>\<open>VK_ERROR_DEVICE_LOST\<close>: the fence was not observed signaled, and the pass still resets
  the fence, acquires, resets command buffer 0 and records into it.
\<close>

theorem C1_counterexample:
  "r_vkWaitForFences wait_fails = VK_ERROR_DEVICE_LOST
   \<and> wait_fails_run ! 14 = vkQueueSubmit graphicsQueue (submitInfo 0) 0
   \<and> take 6 (drop 34 wait_fails_run) =
       [vkWaitForFences 0, vkResetFences 0,
        vkAcquireNextImageKHR (imageAvailableSemaphores 0) 0,
        vkResetCommandBuffer 0, vkBeginCommandBuffer 0,
        vkCmd 0 (vkCmdPipelineBarrier VK_PIPELINE_STAGE_TOP_OF_PIPE_BIT
                   VK_PIPELINE_STAGE_COLOR_ATTACHMENT_OUTPUT_BIT
                   \<lparr>oldLayout = VK_IMAGE_LAYOUT_UNDEFINED,
                    newLayout = VK_IMAGE_LAYOUT_COLOR_ATTACHMENT_OPTIMAL,
                    barrier_image = 0,
                    srcAccessMask = [],
                    dstAccessMask = [VK_ACCESS_COLOR_ATTACHMENT_WRITE_BIT]\<rparr>)]"
  by code_simp

text \<open>
  C1, amended.  For every slot count \<open>n \<ge> 1\<close> and at every point of every run of the
  frame loop: a call that writes command buffer \<open>s\<close> (reset, begin, a recorded command,
  end) comes after a call of the host wait on fence \<open>s\<close> that is followed at once by
  the reset of fence \<open>s\<close>, with no wait, reset or signalling submission on fence \<open>s\<close>
  between that reset and the write.  Every slot index mentioned by a call of pass \<open>k\<close>
  (the pass opened by the \<open>(k+1)\<close>-th fence wait) is \<open>k mod n\<close>, so pass \<open>k + n\<close> writes
  the buffer that pass \<open>k\<close> submitted, and does so only after the wait call on the fence
  that pass \<open>k\<close> passed to its submission has returned.  What the wait calls return has
  no influence on the loop: the fence has been observed signaled only when the wait
  returned \<^verbatim>\<open>VK_SUCCESS\<close>.
\<close>

theorem C1_wait_call_before_recording:
  assumes "1 \<le> n"
    and "fst (mainLoop n st es) = pre @ ev # post"
  shows "(\<forall>s. buffer_of ev = Some s \<longrightarrow>
            (\<exists>a b. pre = a @ vkWaitForFences s # vkResetFences s # b
                   \<and> (\<forall>x\<in>set b. \<not> fence_event s x)))
       \<and> (\<forall>s k. s \<in> set (slots_mentioned ev) \<longrightarrow> length (waited_slots (pre @ [ev])) = Suc k
            \<longrightarrow> s = k mod n)
       \<and> mainLoop n st (map (\<lambda>e. e\<lparr>r_vkWaitForFences := f e\<rparr>) es') = mainLoop n st es'"
proof (intro conjI allI impI)
  fix s
  assume b: "buffer_of ev = Some s"
  have g: "guarded (None, \<lambda>_. False) (fst (mainLoop n st es))"
    using guarded_mainLoop_from[of "\<lambda>_. False" n st 0 es] by (simp add: mainLoop_def)
  from guarded_split[OF g assms(2) b]
  show "\<exists>a b. pre = a @ vkWaitForFences s # vkResetFences s # b
              \<and> (\<forall>x\<in>set b. \<not> fence_event s x)"
    by simp
next
  fix s k
  assume m: "s \<in> set (slots_mentioned ev)" and l: "length (waited_slots (pre @ [ev])) = Suc k"
  have c: "cyclic n 0 (fst (mainLoop n st es))"
    using cyclic_mainLoop_from[of n 0 st es] by (simp add: mainLoop_def)
  from cyclic_split[OF c assms(2) m] l show "s = k mod n" by simp
next
  show "mainLoop n st (map (\<lambda>e. e\<lparr>r_vkWaitForFences := f e\<rparr>) es') = mainLoop n st es'"
    by (simp add: mainLoop_def mainLoop_from_ignores_wait)
qed

theorem C1_wait_call_before_recording_witness:
  "(\<exists>a b. take 37 three_frames = a @ vkWaitForFences 0 # vkResetFences 0 # b
           \<and> (\<forall>x\<in>set b. \<not> fence_event 0 x))
   \<and> (0::nat) = 2 mod 2
   \<and> mainLoop 2 example_members [example_frame 0, example_frame 1, wait_fails]
       = mainLoop 2 example_members [example_frame 0, example_frame 1, example_frame 0]"
proof -
  have n: "(1::nat) \<le> 2" by simp
  have t: "fst (mainLoop 2 example_members [example_frame 0, example_frame 1, example_frame 0])
           = take 37 three_frames @ vkResetCommandBuffer 0 # drop 38 three_frames"
    by (simp add: three_frames_def mainLoop_def frame_complete example_frame_def frame_record_def
        recorded_commands_def)
  have b: "buffer_of (vkResetCommandBuffer 0) = Some 0" by simp
  have m: "0 \<in> set (slots_mentioned (vkResetCommandBuffer 0))" by simp
  have l: "length (waited_slots (take 37 three_frames @ [vkResetCommandBuffer 0])) = Suc 2"
    by (simp add: three_frames_def mainLoop_def frame_complete example_frame_def frame_record_def
        recorded_commands_def)
  have w: "map (\<lambda>e. e\<lparr>r_vkWaitForFences := VK_SUCCESS\<rparr>)
             [example_frame 0, example_frame 1, wait_fails]
           = [example_frame 0, example_frame 1, example_frame 0]"
    by (simp add: wait_fails_def example_frame_def)
  from C1_wait_call_before_recording[OF n t, of "\<lambda>e. VK_SUCCESS"
         "[example_frame 0, example_frame 1, wait_fails]"] b m l
  show ?thesis unfolding w by simp
qed

text \<open>
  C2.  A pass of the loop in which the checked calls succeed issues exactly, in this
  order: the wait on the slot's fence; the reset of that fence; the acquire with the
  slot's image-acquired semaphore; the recording of the slot's command buffer, call by
  call; the submission to the graphics queue, waiting on the image-acquired semaphore
  at the color-attachment-output stage, signalling the rendering-finished semaphore,
  with the slot's fence; the presentation of the acquired index, waiting on the
  rendering-finished semaphore; the event poll; and the next slot is
  \<open>(slot + 1) mod n\<close>.  A pass that returns early issues an initial part of that
  sequence (and a line on \<^verbatim>\<open>std::cerr\<close>).  With two slots, three completed passes are
  the passes of slots 0, 1, 0.
\<close>

theorem C2_iteration_order:
  assumes "completes e" "completes e1" "completes e2" "completes e3"
  shows "frame n st c e =
       ([vkWaitForFences c,
         vkResetFences c,
         vkAcquireNextImageKHR (imageAvailableSemaphores c) (imageIndex e),
         vkResetCommandBuffer c,
         vkBeginCommandBuffer c,
         vkCmd c (vkCmdPipelineBarrier VK_PIPELINE_STAGE_TOP_OF_PIPE_BIT
                    VK_PIPELINE_STAGE_COLOR_ATTACHMENT_OUTPUT_BIT
                    \<lparr>oldLayout = VK_IMAGE_LAYOUT_UNDEFINED,
                     newLayout = VK_IMAGE_LAYOUT_COLOR_ATTACHMENT_OPTIMAL,
                     barrier_image = imageIndex e,
                     srcAccessMask = [],
                     dstAccessMask = [VK_ACCESS_COLOR_ATTACHMENT_WRITE_BIT]\<rparr>),
         vkCmd c (vkCmdBeginRendering
                    \<lparr>renderArea = \<lparr>offset = (0, 0), rect_extent = extent st\<rparr>,
                     layerCount = 1,
                     pColorAttachments =
                       [\<lparr>imageView = imageIndex e,
                         imageLayout = VK_IMAGE_LAYOUT_ATTACHMENT_OPTIMAL_KHR,
                         loadOp = VK_ATTACHMENT_LOAD_OP_CLEAR,
                         storeOp = VK_ATTACHMENT_STORE_OP_STORE,
                         clearValue = [FloatLit 0, FloatLit 0, FloatLit 0, FloatLit 1]\<rparr>]\<rparr>),
         vkCmd c vkCmdBindPipeline,
         vkCmd c (vkCmdSetViewport (viewport st)),
         vkCmd c (vkCmdSetScissor (scissor st)),
         vkCmd c (vkCmdDraw 3 1 0 0),
         vkCmd c vkCmdEndRendering,
         vkCmd c (vkCmdPipelineBarrier VK_PIPELINE_STAGE_COLOR_ATTACHMENT_OUTPUT_BIT
                    VK_PIPELINE_STAGE_BOTTOM_OF_PIPE_BIT
                    \<lparr>oldLayout = VK_IMAGE_LAYOUT_COLOR_ATTACHMENT_OPTIMAL,
                     newLayout = VK_IMAGE_LAYOUT_PRESENT_SRC_KHR,
                     barrier_image = imageIndex e,
                     srcAccessMask = [VK_ACCESS_COLOR_ATTACHMENT_WRITE_BIT],
                     dstAccessMask = []\<rparr>),
         vkEndCommandBuffer c,
         vkQueueSubmit graphicsQueue
           \<lparr>pWaitSemaphores = [imageAvailableSemaphores c],
            pWaitDstStageMask = [VK_PIPELINE_STAGE_COLOR_ATTACHMENT_OUTPUT_BIT],
            pCommandBuffers = [c],
            pSignalSemaphores = [renderFinishedSemaphores c]\<rparr> c,
         vkQueuePresentKHR presentQueue
           \<lparr>present_pWaitSemaphores = [renderFinishedSemaphores c],
            swapchainCount = 1, pImageIndices = [imageIndex e]\<rparr>,
         glfwPollEvents],
        Some ((c + 1) mod n))
     \<and> prefix (filter (\<lambda>x. \<not> is_cerr x) (fst (frame n st c e')))
          (fst (frame n st c (e'\<lparr>r_vkBeginCommandBuffer := VK_SUCCESS,
                   r_vkEndCommandBuffer := VK_SUCCESS, r_vkQueueSubmit := VK_SUCCESS\<rparr>)))
     \<and> mainLoop MAX_FRAMES_IN_FLIGHT st [e1, e2, e3] =
         (fst (frame MAX_FRAMES_IN_FLIGHT st 0 e1) @ fst (frame MAX_FRAMES_IN_FLIGHT st 1 e2)
            @ fst (frame MAX_FRAMES_IN_FLIGHT st 0 e3),
          Looping 1)
     \<and> waited_slots (fst (mainLoop MAX_FRAMES_IN_FLIGHT st [e1, e2, e3])) = [0, 1, 0]"
proof (intro conjI)
  show "prefix (filter (\<lambda>x. \<not> is_cerr x) (fst (frame n st c e')))
          (fst (frame n st c (e'\<lparr>r_vkBeginCommandBuffer := VK_SUCCESS,
                   r_vkEndCommandBuffer := VK_SUCCESS, r_vkQueueSubmit := VK_SUCCESS\<rparr>)))"
    by (rule frame_prefix)
  show "waited_slots (fst (mainLoop MAX_FRAMES_IN_FLIGHT st [e1, e2, e3])) = [0, 1, 0]"
    using assms(2-4) by (rule three_passes)
  show "mainLoop MAX_FRAMES_IN_FLIGHT st [e1, e2, e3] =
         (fst (frame MAX_FRAMES_IN_FLIGHT st 0 e1) @ fst (frame MAX_FRAMES_IN_FLIGHT st 1 e2)
            @ fst (frame MAX_FRAMES_IN_FLIGHT st 0 e3),
          Looping 1)"
    using assms(2-4)
    by (simp add: mainLoop_def MAX_FRAMES_IN_FLIGHT_def completes_def frame_complete)
next
  show "frame n st c e = ([vkWaitForFences c,
         vkResetFences c,
         vkAcquireNextImageKHR (imageAvailableSemaphores c) (imageIndex e),
         vkResetCommandBuffer c,
         vkBeginCommandBuffer c,
         vkCmd c (vkCmdPipelineBarrier VK_PIPELINE_STAGE_TOP_OF_PIPE_BIT
                    VK_PIPELINE_STAGE_COLOR_ATTACHMENT_OUTPUT_BIT
                    \<lparr>oldLayout = VK_IMAGE_LAYOUT_UNDEFINED,
                     newLayout = VK_IMAGE_LAYOUT_COLOR_ATTACHMENT_OPTIMAL,
                     barrier_image = imageIndex e,
                     srcAccessMask = [],
                     dstAccessMask = [VK_ACCESS_COLOR_ATTACHMENT_WRITE_BIT]\<rparr>),
         vkCmd c (vkCmdBeginRendering
                    \<lparr>renderArea = \<lparr>offset = (0, 0), rect_extent = extent st\<rparr>,
                     layerCount = 1,
                     pColorAttachments =
                       [\<lparr>imageView = imageIndex e,
                         imageLayout = VK_IMAGE_LAYOUT_ATTACHMENT_OPTIMAL_KHR,
                         loadOp = VK_ATTACHMENT_LOAD_OP_CLEAR,
                         storeOp = VK_ATTACHMENT_STORE_OP_STORE,
                         clearValue = [FloatLit 0, FloatLit 0, FloatLit 0, FloatLit 1]\<rparr>]\<rparr>),
         vkCmd c vkCmdBindPipeline,
         vkCmd c (vkCmdSetViewport (viewport st)),
         vkCmd c (vkCmdSetScissor (scissor st)),
         vkCmd c (vkCmdDraw 3 1 0 0),
         vkCmd c vkCmdEndRendering,
         vkCmd c (vkCmdPipelineBarrier VK_PIPELINE_STAGE_COLOR_ATTACHMENT_OUTPUT_BIT
                    VK_PIPELINE_STAGE_BOTTOM_OF_PIPE_BIT
                    \<lparr>oldLayout = VK_IMAGE_LAYOUT_COLOR_ATTACHMENT_OPTIMAL,
                     newLayout = VK_IMAGE_LAYOUT_PRESENT_SRC_KHR,
                     barrier_image = imageIndex e,
                     srcAccessMask = [VK_ACCESS_COLOR_ATTACHMENT_WRITE_BIT],
                     dstAccessMask = []\<rparr>),
         vkEndCommandBuffer c,
         vkQueueSubmit graphicsQueue
           \<lparr>pWaitSemaphores = [imageAvailableSemaphores c],
            pWaitDstStageMask = [VK_PIPELINE_STAGE_COLOR_ATTACHMENT_OUTPUT_BIT],
            pCommandBuffers = [c],
            pSignalSemaphores = [renderFinishedSemaphores c]\<rparr> c,
         vkQueuePresentKHR presentQueue
           \<lparr>present_pWaitSemaphores = [renderFinishedSemaphores c],
            swapchainCount = 1, pImageIndices = [imageIndex e]\<rparr>,
         glfwPollEvents],
        Some ((c + 1) mod n))"
    using assms(1)
    by (simp add: completes_def frame_def frame_wait_acquire_def frame_record_def
        recorded_commands_def frame_submit_def frame_present_def submitInfo_def presentInfo_def
        barrier_to_color_attachment_def barrier_to_present_def renderingInfo_def
        colorAttachment_def)
qed

theorem C2_iteration_order_witness:
  "frame 2 example_members 1 (example_frame 0) =
       ([vkWaitForFences 1,
         vkResetFences 1,
         vkAcquireNextImageKHR (imageAvailableSemaphores 1) 0,
         vkResetCommandBuffer 1,
         vkBeginCommandBuffer 1,
         vkCmd 1 (vkCmdPipelineBarrier VK_PIPELINE_STAGE_TOP_OF_PIPE_BIT
                    VK_PIPELINE_STAGE_COLOR_ATTACHMENT_OUTPUT_BIT
                    \<lparr>oldLayout = VK_IMAGE_LAYOUT_UNDEFINED,
                     newLayout = VK_IMAGE_LAYOUT_COLOR_ATTACHMENT_OPTIMAL,
                     barrier_image = 0,
                     srcAccessMask = [],
                     dstAccessMask = [VK_ACCESS_COLOR_ATTACHMENT_WRITE_BIT]\<rparr>),
         vkCmd 1 (vkCmdBeginRendering
                    \<lparr>renderArea = \<lparr>offset = (0, 0), rect_extent = \<lparr>width = 0, height = 0\<rparr>\<rparr>,
                     layerCount = 1,
                     pColorAttachments =
                       [\<lparr>imageView = 0,
                         imageLayout = VK_IMAGE_LAYOUT_ATTACHMENT_OPTIMAL_KHR,
                         loadOp = VK_ATTACHMENT_LOAD_OP_CLEAR,
                         storeOp = VK_ATTACHMENT_STORE_OP_STORE,
                         clearValue = [FloatLit 0, FloatLit 0, FloatLit 0, FloatLit 1]\<rparr>]\<rparr>),
         vkCmd 1 vkCmdBindPipeline,
         vkCmd 1 (vkCmdSetViewport
                    \<lparr>vp_x = FloatLit 0, vp_y = FloatLit 0, vp_width = FloatLit 0,
                     vp_height = FloatLit 0, minDepth = FloatLit 0, maxDepth = FloatLit 0\<rparr>),
         vkCmd 1 (vkCmdSetScissor \<lparr>offset = (0, 0), rect_extent = \<lparr>width = 0, height = 0\<rparr>\<rparr>),
         vkCmd 1 (vkCmdDraw 3 1 0 0),
         vkCmd 1 vkCmdEndRendering,
         vkCmd 1 (vkCmdPipelineBarrier VK_PIPELINE_STAGE_COLOR_ATTACHMENT_OUTPUT_BIT
                    VK_PIPELINE_STAGE_BOTTOM_OF_PIPE_BIT
                    \<lparr>oldLayout = VK_IMAGE_LAYOUT_COLOR_ATTACHMENT_OPTIMAL,
                     newLayout = VK_IMAGE_LAYOUT_PRESENT_SRC_KHR,
                     barrier_image = 0,
                     srcAccessMask = [VK_ACCESS_COLOR_ATTACHMENT_WRITE_BIT],
                     dstAccessMask = []\<rparr>),
         vkEndCommandBuffer 1,
         vkQueueSubmit graphicsQueue
           \<lparr>pWaitSemaphores = [imageAvailableSemaphores 1],
            pWaitDstStageMask = [VK_PIPELINE_STAGE_COLOR_ATTACHMENT_OUTPUT_BIT],
            pCommandBuffers = [1],
            pSignalSemaphores = [renderFinishedSemaphores 1]\<rparr> 1,
         vkQueuePresentKHR presentQueue
           \<lparr>present_pWaitSemaphores = [renderFinishedSemaphores 1],
            swapchainCount = 1, pImageIndices = [0]\<rparr>,
         glfwPollEvents],
        Some 0)
   \<and> snd (mainLoop MAX_FRAMES_IN_FLIGHT example_members
         [example_frame 0, example_frame 1, example_frame 0]) = Looping 1
   \<and> waited_slots (fst (mainLoop MAX_FRAMES_IN_FLIGHT example_members
         [example_frame 0, example_frame 1, example_frame 0])) = [0, 1, 0]"
proof -
  have c: "\<And>i. completes (example_frame i)" by (simp add: completes_def example_frame_def)
  have i: "imageIndex (example_frame 0) = 0" by (simp add: example_frame_def)
  have m: "extent example_members = \<lparr>width = 0, height = 0\<rparr>"
    "viewport example_members = \<lparr>vp_x = FloatLit 0, vp_y = FloatLit 0, vp_width = FloatLit 0,
                     vp_height = FloatLit 0, minDepth = FloatLit 0, maxDepth = FloatLit 0\<rparr>"
    "scissor example_members = \<lparr>offset = (0, 0), rect_extent = \<lparr>width = 0, height = 0\<rparr>\<rparr>"
    by (simp_all add: example_members_def)
  note th = C2_iteration_order[OF c c c c, of 2 example_members 1 0 undefined 0 1 0]
  note a = th[THEN conjunct1, unfolded i m]
  have b: "snd (mainLoop MAX_FRAMES_IN_FLIGHT example_members
         [example_frame 0, example_frame 1, example_frame 0]) = Looping 1"
    using th by simp
  note w = th[THEN conjunct2, THEN conjunct2, THEN conjunct2]
  from a b w show ?thesis by simp
qed

text \<open>
  C3.  After a setup that ran to its end with at least one swapchain image, every
  pass whose \<^verbatim>\<open>vkBeginCommandBuffer\<close> succeeds issues, right after the acquire call:
  the reset of the slot's command buffer and its opening for recording; the barrier
  from undefined to color-attachment layout (top-of-pipe to color-attachment-output);
  the start of a rendering scope over the acquired image's view, clearing to
  \<open>(0, 0, 0, 1)\<close> and storing; the pipeline bind, the viewport and the scissor set to
  the whole extent; one draw of 3 vertices and 1 instance, with no vertex or index
  buffer bound before it; the end of the rendering scope; the barrier from
  color-attachment to present layout (color-attachment-output to bottom-of-pipe); the
  sealing of the command buffer.
\<close>

theorem C3_recorded_commands:
  assumes "initVulkan n env u = (t, st, True)"
    and "images env \<noteq> []"
    and "r_vkBeginCommandBuffer e = VK_SUCCESS"
  shows "\<exists>rest. fst (frame n st c e) =
      [vkWaitForFences c, vkResetFences c,
       vkAcquireNextImageKHR (imageAvailableSemaphores c) (imageIndex e),
       vkResetCommandBuffer c,
       vkBeginCommandBuffer c,
       vkCmd c (vkCmdPipelineBarrier VK_PIPELINE_STAGE_TOP_OF_PIPE_BIT
                  VK_PIPELINE_STAGE_COLOR_ATTACHMENT_OUTPUT_BIT
                  \<lparr>oldLayout = VK_IMAGE_LAYOUT_UNDEFINED,
                   newLayout = VK_IMAGE_LAYOUT_COLOR_ATTACHMENT_OPTIMAL,
                   barrier_image = imageIndex e,
                   srcAccessMask = [],
                   dstAccessMask = [VK_ACCESS_COLOR_ATTACHMENT_WRITE_BIT]\<rparr>),
       vkCmd c (vkCmdBeginRendering
                  \<lparr>renderArea = \<lparr>offset = (0, 0), rect_extent = extent st\<rparr>,
                   layerCount = 1,
                   pColorAttachments =
                     [\<lparr>imageView = imageIndex e,
                       imageLayout = VK_IMAGE_LAYOUT_ATTACHMENT_OPTIMAL_KHR,
                       loadOp = VK_ATTACHMENT_LOAD_OP_CLEAR,
                       storeOp = VK_ATTACHMENT_STORE_OP_STORE,
                       clearValue = [FloatLit 0, FloatLit 0, FloatLit 0, FloatLit 1]\<rparr>]\<rparr>),
       vkCmd c vkCmdBindPipeline,
       vkCmd c (vkCmdSetViewport
                  \<lparr>vp_x = FloatLit 0, vp_y = FloatLit 0,
                   vp_width = FloatOfU32 (width (extent st)),
                   vp_height = FloatOfU32 (height (extent st)),
                   minDepth = FloatLit 0, maxDepth = FloatLit 1\<rparr>),
       vkCmd c (vkCmdSetScissor \<lparr>offset = (0, 0), rect_extent = extent st\<rparr>),
       vkCmd c (vkCmdDraw 3 1 0 0),
       vkCmd c vkCmdEndRendering,
       vkCmd c (vkCmdPipelineBarrier VK_PIPELINE_STAGE_COLOR_ATTACHMENT_OUTPUT_BIT
                  VK_PIPELINE_STAGE_BOTTOM_OF_PIPE_BIT
                  \<lparr>oldLayout = VK_IMAGE_LAYOUT_COLOR_ATTACHMENT_OPTIMAL,
                   newLayout = VK_IMAGE_LAYOUT_PRESENT_SRC_KHR,
                   barrier_image = imageIndex e,
                   srcAccessMask = [VK_ACCESS_COLOR_ATTACHMENT_WRITE_BIT],
                   dstAccessMask = []\<rparr>),
       vkEndCommandBuffer c] @ rest"
proof -
  from initVulkan_state[OF assms(1)] assms(2)
  obtain ext where "st = set_viewport_scissor
        (u\<lparr>extent := ext, swapChainImages_size := length (images env),
           swapChainImageViews_size := length (images env)\<rparr>)"
    by auto
  then have "viewport st = \<lparr>vp_x = FloatLit 0, vp_y = FloatLit 0,
                   vp_width = FloatOfU32 (width (extent st)),
                   vp_height = FloatOfU32 (height (extent st)),
                   minDepth = FloatLit 0, maxDepth = FloatLit 1\<rparr>"
    and "scissor st = \<lparr>offset = (0, 0), rect_extent = extent st\<rparr>"
    by (simp_all add: set_viewport_scissor_def)
  with assms(3) show ?thesis
    by (simp add: frame_def frame_wait_acquire_def frame_record_def recorded_commands_def
        barrier_to_color_attachment_def barrier_to_present_def renderingInfo_def
        colorAttachment_def)
qed

theorem C3_recorded_commands_witness:
  "\<exists>rest. fst (frame 2 (fst (snd (initVulkan 2 example_setup example_members))) 0 (example_frame 1)) =
      [vkWaitForFences 0, vkResetFences 0,
       vkAcquireNextImageKHR (imageAvailableSemaphores 0) 1,
       vkResetCommandBuffer 0,
       vkBeginCommandBuffer 0,
       vkCmd 0 (vkCmdPipelineBarrier VK_PIPELINE_STAGE_TOP_OF_PIPE_BIT
                  VK_PIPELINE_STAGE_COLOR_ATTACHMENT_OUTPUT_BIT
                  \<lparr>oldLayout = VK_IMAGE_LAYOUT_UNDEFINED,
                   newLayout = VK_IMAGE_LAYOUT_COLOR_ATTACHMENT_OPTIMAL,
                   barrier_image = 1,
                   srcAccessMask = [],
                   dstAccessMask = [VK_ACCESS_COLOR_ATTACHMENT_WRITE_BIT]\<rparr>),
       vkCmd 0 (vkCmdBeginRendering
                  \<lparr>renderArea = \<lparr>offset = (0, 0), rect_extent = \<lparr>width = 1080, height = 720\<rparr>\<rparr>,
                   layerCount = 1,
                   pColorAttachments =
                     [\<lparr>imageView = 1,
                       imageLayout = VK_IMAGE_LAYOUT_ATTACHMENT_OPTIMAL_KHR,
                       loadOp = VK_ATTACHMENT_LOAD_OP_CLEAR,
                       storeOp = VK_ATTACHMENT_STORE_OP_STORE,
                       clearValue = [FloatLit 0, FloatLit 0, FloatLit 0, FloatLit 1]\<rparr>]\<rparr>),
       vkCmd 0 vkCmdBindPipeline,
       vkCmd 0 (vkCmdSetViewport
                  \<lparr>vp_x = FloatLit 0, vp_y = FloatLit 0,
                   vp_width = FloatOfU32 1080, vp_height = FloatOfU32 720,
                   minDepth = FloatLit 0, maxDepth = FloatLit 1\<rparr>),
       vkCmd 0 (vkCmdSetScissor \<lparr>offset = (0, 0), rect_extent = \<lparr>width = 1080, height = 720\<rparr>\<rparr>),
       vkCmd 0 (vkCmdDraw 3 1 0 0),
       vkCmd 0 vkCmdEndRendering,
       vkCmd 0 (vkCmdPipelineBarrier VK_PIPELINE_STAGE_COLOR_ATTACHMENT_OUTPUT_BIT
                  VK_PIPELINE_STAGE_BOTTOM_OF_PIPE_BIT
                  \<lparr>oldLayout = VK_IMAGE_LAYOUT_COLOR_ATTACHMENT_OPTIMAL,
                   newLayout = VK_IMAGE_LAYOUT_PRESENT_SRC_KHR,
                   barrier_image = 1,
                   srcAccessMask = [VK_ACCESS_COLOR_ATTACHMENT_WRITE_BIT],
                   dstAccessMask = []\<rparr>),
       vkEndCommandBuffer 0] @ rest"
proof -
  have i: "initVulkan 2 example_setup example_members =
      (fst (initVulkan 2 example_setup example_members),
       fst (snd (initVulkan 2 example_setup example_members)), True)"
    using example_setup_completes by (simp add: prod_eq_iff)
  have m: "images example_setup \<noteq> []" by (simp add: example_setup_def)
  have b: "r_vkBeginCommandBuffer (example_frame 1) = VK_SUCCESS" by (simp add: example_frame_def)
  have x: "imageIndex (example_frame 1) = 1" by (simp add: example_frame_def)
  from C3_recorded_commands[OF i m b, of 0] show ?thesis
    by (simp only: example_setup_extent x VkExtent2D.simps)
qed

text \<open>
  C4.  The claim fails on the code: the closing brace of the loop over the swapchain
  images is after the creation of the synchronization objects, so the pipeline layout,
  the pipeline, the command pool and the synchronization objects are created once per
  swapchain image.  With two images and two slots, a setup in which every call succeeds
  creates the pipeline twice and twelve synchronization objects instead of six, while
  \<^verbatim>\<open>cleanup\<close> destroys one pipeline.
\<close>

theorem C4_pipeline_created_per_image:
  "length (images example_setup) = 2
   \<and> snd (snd (initVulkan MAX_FRAMES_IN_FLIGHT example_setup example_members)) = True
   \<and> length (filter (\<lambda>x. x = vkCreate graphicsPipeline)
        (fst (initVulkan MAX_FRAMES_IN_FLIGHT example_setup example_members))) = 2
   \<and> length (filter (\<lambda>x. x = vkCreate pipelineLayout)
        (fst (initVulkan MAX_FRAMES_IN_FLIGHT example_setup example_members))) = 2
   \<and> length (filter creates_sync
        (fst (initVulkan MAX_FRAMES_IN_FLIGHT example_setup example_members))) = 12
   \<and> length (filter (\<lambda>x. x = vkDestroy graphicsPipeline)
        (cleanup MAX_FRAMES_IN_FLIGHT
           (fst (snd (initVulkan MAX_FRAMES_IN_FLIGHT example_setup example_members))))) = 1"
  by code_simp

text \<open>
  C5.  The claim fails on the code: \<^verbatim>\<open>initVulkan\<close> reports the failure and returns, but
  it returns \<^verbatim>\<open>void\<close> and \<^verbatim>\<open>run\<close> calls \<^verbatim>\<open>mainLoop\<close> next.  When the instance cannot
  be created and the window is open, the loop body runs: the calls after the report are
  the fence wait, the fence reset, the acquire, and the reset and the opening of the
  command buffer of the first pass.  (The next statement of the source indexes the
  empty vector of swapchain images; the statement stops before it.)
\<close>

theorem C5_loop_runs_after_failed_setup:
  "take 9 (fst (run MAX_FRAMES_IN_FLIGHT instance_fails [example_frame 0] example_members)) =
     [glfwInit, glfwCreateWindow, vkCreate instance_handle, cerr ''VkInstance Creation Error'',
      vkWaitForFences 0, vkResetFences 0,
      vkAcquireNextImageKHR (imageAvailableSemaphores 0) 0,
      vkResetCommandBuffer 0, vkBeginCommandBuffer 0]"
  by code_simp

text \<open>
  C6.  On a platform that keeps the contract of the surface capabilities, the extent
  resolved at setup is the framebuffer size when the width of the current extent is the
  sentinel \<open>2^32 - 1\<close> and the platform-reported extent otherwise, in both cases clamped
  into the reported bounds, and it lies within them.  The platform-reported extent is
  taken as it is (the contract puts it within the bounds), and so is a framebuffer size
  that lies within the bounds.  A setup that runs to its end leaves the resolved extent
  in the \<open>extent\<close> member.
\<close>

theorem C6_extent_resolution:
  assumes "surface_contract caps"
  shows "resolve_extent caps fb =
           Some (clamped_into caps
                  (if width (currentExtent caps) = - 1 then framebuffer_extent fb
                   else currentExtent caps))
       \<and> (\<exists>ext. resolve_extent caps fb = Some ext \<and> extent_in_range caps ext)
       \<and> (width (currentExtent caps) \<noteq> - 1 \<longrightarrow>
            resolve_extent caps fb = Some (currentExtent caps))
       \<and> (width (currentExtent caps) = - 1 \<and> extent_in_range caps (framebuffer_extent fb) \<longrightarrow>
            resolve_extent caps fb = Some (framebuffer_extent fb))
       \<and> (initVulkan n env u = (t, st, True) \<longrightarrow>
            resolve_extent (capabilities env) (framebufferSize env) = Some (extent st))"
proof -
  have lo: "width (minImageExtent caps) \<le> width (maxImageExtent caps)"
       "height (minImageExtent caps) \<le> height (maxImageExtent caps)"
    using assms by (simp_all add: surface_contract_def)
  have r: "resolve_extent caps fb =
           Some (clamped_into caps
                  (if width (currentExtent caps) = - 1 then framebuffer_extent fb
                   else currentExtent caps))"
    using assms lo
    by (simp add: resolve_extent_def surface_contract_def std_clamp_Some clamped_into_id)
       (simp add: clamped_into_def)
  show ?thesis
    using r clamped_into_range[OF lo] assms
    by (auto simp: initVulkan_extent clamped_into_id surface_contract_def)
qed

theorem C6_extent_resolution_witness:
  "resolve_extent undefined_extent_caps (5000, 720) = Some \<lparr>width = 4096, height = 720\<rparr>
   \<and> resolve_extent undefined_extent_caps (1080, 720) = Some \<lparr>width = 1080, height = 720\<rparr>
   \<and> resolve_extent (capabilities example_setup) (5000, 720) = Some \<lparr>width = 1080, height = 720\<rparr>
   \<and> resolve_extent (capabilities example_setup) (framebufferSize example_setup)
        = Some (extent (fst (snd (initVulkan 2 example_setup example_members))))"
proof -
  have c1: "surface_contract undefined_extent_caps"
    by (simp add: surface_contract_def undefined_extent_caps_def)
  have c2: "surface_contract (capabilities example_setup)"
    by (simp add: surface_contract_def example_setup_def extent_in_range_def)
  have s: "width (currentExtent undefined_extent_caps) = - 1"
    by (simp add: undefined_extent_caps_def)
  have n: "width (currentExtent (capabilities example_setup)) \<noteq> - 1"
    by (simp add: example_setup_def)
  have f: "extent_in_range undefined_extent_caps (framebuffer_extent (1080, 720))"
    by (simp add: undefined_extent_caps_def extent_in_range_def framebuffer_extent_def)
  have i: "initVulkan 2 example_setup example_members =
      (fst (initVulkan 2 example_setup example_members),
       fst (snd (initVulkan 2 example_setup example_members)), True)"
    using example_setup_completes by (simp add: prod_eq_iff)
  note th1 = C6_extent_resolution[OF c1, of _ 2 example_setup example_members
         "fst (initVulkan 2 example_setup example_members)"
         "fst (snd (initVulkan 2 example_setup example_members))"]
  note th2 = C6_extent_resolution[OF c2, of _ 2 example_setup example_members
         "fst (initVulkan 2 example_setup example_members)"
         "fst (snd (initVulkan 2 example_setup example_members))"]
  have a1: "resolve_extent undefined_extent_caps (5000, 720) =
              Some (clamped_into undefined_extent_caps (framebuffer_extent (5000, 720)))"
    using th1[of "(5000, 720)"] s by simp
  have a2: "resolve_extent undefined_extent_caps (1080, 720) = Some (framebuffer_extent (1080, 720))"
    using th1[of "(1080, 720)"] s f by blast
  have a3: "resolve_extent (capabilities example_setup) (5000, 720)
              = Some (currentExtent (capabilities example_setup))"
    using th2[of "(5000, 720)"] n by blast
  have a4: "resolve_extent (capabilities example_setup) (framebufferSize example_setup)
        = Some (extent (fst (snd (initVulkan 2 example_setup example_members))))"
    using th2[of "(5000, 720)"] i by blast
  have b1: "clamped_into undefined_extent_caps (framebuffer_extent (5000, 720))
              = \<lparr>width = 4096, height = 720\<rparr>"
    by (simp add: clamped_into_def undefined_extent_caps_def framebuffer_extent_def)
  have b2: "framebuffer_extent (1080, 720) = \<lparr>width = 1080, height = 720\<rparr>"
    by (simp add: framebuffer_extent_def)
  have b3: "currentExtent (capabilities example_setup) = \<lparr>width = 1080, height = 720\<rparr>"
    by (simp add: example_setup_def)
  show ?thesis
    using a4 by (simp add: a1 a2 a3 b1 b2 b3)
qed

text \<open>
  C7.  As stated the claim fails: the shader files are opened after the swapchain has
  been created, so the report of a missing vertex shader comes after
  \<^verbatim>\<open>vkCreateSwapchainKHR\<close>; and an empty file is opened like any other, so with an empty
  vertex shader file and a driver that accepts it the setup runs to its end without a
  report.
\<close>

theorem C7_counterexample:
  "take 8 (fst (initVulkan 2 vertex_shader_missing example_members)) =
     [vkCreate instance_handle, vkCreate surface, vkEnumeratePhysicalDevices,
      vkEnumeratePhysicalDevices, vkCreate device, vkGetDeviceQueue graphicsQueue,
      vkGetDeviceQueue presentQueue, vkCreate swapChain]
   \<and> last (fst (initVulkan 2 vertex_shader_missing example_members))
       = cerr ''Failed to read vertex shader file''
   \<and> length (fst (initVulkan 2 vertex_shader_missing example_members)) = 14
   \<and> snd (snd (initVulkan 2 vertex_shader_empty example_members)) = True
   \<and> filter is_cerr (fst (initVulkan 2 vertex_shader_empty example_members)) = []"
  by code_simp

text \<open>
  C7, amended.  Whenever setup comes to open the shader files and the vertex or the
  fragment file cannot be opened, \<^verbatim>\<open>initVulkan\<close> reports the failure to load that shader
  and returns at once: the report is the last thing it does.  The files are opened only
  after the swapchain has been created.  An empty file is not rejected when it is
  opened.  (The statement covers every point at which the source opens the files:
  \<open>passed\<close> are the passes of the image loop that ran to their end before.)
\<close>

theorem C7_shader_load_failure:
  assumes "reaches_image_loop env"
    and "images env = passed @ ie # rest"
    and "list_all (pass_succeeds n) passed"
    and "r_vkCreateImageView ie = VK_SUCCESS"
    and "vert_spv ie = None \<or> frag_spv ie = None"
  shows "\<exists>pre st'. initVulkan n env st =
     (pre @ open_spv vertex_stage
        # (if vert_spv ie = None then [cerr ''Failed to read vertex shader file'']
           else [open_spv fragment_stage, cerr ''Failed to load fragment shader file'']),
      st', False)
     \<and> vkCreate swapChain \<in> set pre"
proof -
  from initVulkan_reaches[OF assms(1), of n st]
  obtain p0 s0 where p0: "vkCreate swapChain \<in> set p0"
    and i: "initVulkan n env st =
             (case image_loop n (images env) 0 s0 of (t', r) \<Rightarrow> (p0 @ t', r))"
    by blast
  from image_loop_passes[OF assms(3), of 0 s0]
  obtain td sd where l: "image_loop n (passed @ ie # rest) 0 s0 =
        (case image_loop n (ie # rest) (0 + length passed) sd of (t', r) \<Rightarrow> (td @ t', r))"
    by blast
  have m: "image_loop n (ie # rest) (0 + length passed) sd =
     ([vkCreate (swapChainImageViews (length passed)), runtime_compile, open_spv vertex_stage]
      @ (if vert_spv ie = None then [cerr ''Failed to read vertex shader file'']
         else [open_spv fragment_stage, cerr ''Failed to load fragment shader file'']),
      sd, False)"
    using init_image_shader_missing[OF assms(4,5), of n "length passed" sd] by simp
  have "initVulkan n env st =
     ((p0 @ td @ [vkCreate (swapChainImageViews (length passed)), runtime_compile])
        @ open_spv vertex_stage
        # (if vert_spv ie = None then [cerr ''Failed to read vertex shader file'']
           else [open_spv fragment_stage, cerr ''Failed to load fragment shader file'']),
      sd, False)"
    using i l m assms(2) by simp
  moreover have "vkCreate swapChain \<in> set (p0 @ td @ [vkCreate (swapChainImageViews (length passed)), runtime_compile])"
    using p0 by simp
  ultimately show ?thesis by blast
qed

theorem C7_shader_load_failure_witness:
  "(\<exists>pre st'. initVulkan 2 fragment_shader_missing_later example_members =
     (pre @ [open_spv vertex_stage, open_spv fragment_stage,
             cerr ''Failed to load fragment shader file''],
      st', False)
     \<and> vkCreate swapChain \<in> set pre)
   \<and> (\<exists>pre st'. initVulkan 2 vertex_shader_missing example_members =
     (pre @ [open_spv vertex_stage, cerr ''Failed to read vertex shader file''], st', False)
     \<and> vkCreate swapChain \<in> set pre)"
proof -
  have r1: "reaches_image_loop fragment_shader_missing_later"
    and r2: "reaches_image_loop vertex_shader_missing" by code_simp+
  have i1: "images fragment_shader_missing_later
              = [example_image] @ example_image\<lparr>frag_spv := None\<rparr> # []"
    by (simp add: fragment_shader_missing_later_def)
  have i2: "images vertex_shader_missing
              = [] @ example_image\<lparr>vert_spv := None\<rparr> # [example_image]"
    by (simp add: vertex_shader_missing_def)
  have p1: "list_all (pass_succeeds 2) [example_image]" by code_simp
  have p2: "list_all (pass_succeeds 2) []" by simp
  have v1: "r_vkCreateImageView (example_image\<lparr>frag_spv := None\<rparr>) = VK_SUCCESS"
    "vert_spv (example_image\<lparr>frag_spv := None\<rparr>) = None
       \<or> frag_spv (example_image\<lparr>frag_spv := None\<rparr>) = None"
    "vert_spv (example_image\<lparr>frag_spv := None\<rparr>) \<noteq> None"
    by (simp_all add: example_image_def)
  have v2: "r_vkCreateImageView (example_image\<lparr>vert_spv := None\<rparr>) = VK_SUCCESS"
    "vert_spv (example_image\<lparr>vert_spv := None\<rparr>) = None
       \<or> frag_spv (example_image\<lparr>vert_spv := None\<rparr>) = None"
    "vert_spv (example_image\<lparr>vert_spv := None\<rparr>) = None"
    by (simp_all add: example_image_def)
  from C7_shader_load_failure[OF r1 i1 p1 v1(1,2), of example_members]
  have a: "\<exists>pre st'. initVulkan 2 fragment_shader_missing_later example_members =
     (pre @ [open_spv vertex_stage, open_spv fragment_stage,
             cerr ''Failed to load fragment shader file''],
      st', False)
     \<and> vkCreate swapChain \<in> set pre"
    by (simp add: example_image_def)
  from C7_shader_load_failure[OF r2 i2 p2 v2(1,2), of example_members]
  have b: "\<exists>pre st'. initVulkan 2 vertex_shader_missing example_members =
     (pre @ [open_spv vertex_stage, cerr ''Failed to read vertex shader file''], st', False)
     \<and> vkCreate swapChain \<in> set pre"
    by (simp add: example_image_def)
  from a b show ?thesis by blast
qed




text \<open>
  C9.  Once the loop has stopped, by the window-close signal or by a \<^verbatim>\<open>return\<close> in its
  body, the trace of the run splits at a call of \<^verbatim>\<open>vkDeviceWaitIdle\<close>: before it no
  semaphore, fence, command pool, pipeline, pipeline layout, image view, swapchain,
  device, surface or instance is destroyed, and after it (where these are destroyed) no
  work is handed to the device or the presentation engine.
\<close>

theorem C9_drain_before_destroy:
  assumes "run n env fes u = (tr, s)" "s = Exited \<or> s = Returned"
  shows "\<exists>pre post. tr = pre @ vkDeviceWaitIdle # post
           \<and> (\<forall>x\<in>set pre. \<not> destroys_resource x)
           \<and> (\<forall>x\<in>set post. \<not> enqueues_work x)
           \<and> vkDestroy device \<in> set post"
proof -
  obtain t1 st b where i: "initVulkan n env (u\<lparr>swapChainImages_size := 0, swapChainImageViews_size := 0\<rparr>) = (t1, st, b)"
    by (cases "initVulkan n env (u\<lparr>swapChainImages_size := 0, swapChainImageViews_size := 0\<rparr>)") auto
  obtain t2 s' where l: "mainLoop n st fes = (t2, s')" by (cases "mainLoop n st fes")
  have tr: "tr = (initWindow @ t1 @ t2) @ vkDeviceWaitIdle # tl (cleanup n st)"
    using assms i l cleanup_Cons[of n st] by (cases s') (auto simp: run_def)
  have "\<forall>x\<in>set t1. \<not> destroys_resource x"
    using no_destroy_initVulkan[of n env] i by (rule no_destroyD)
  moreover have "\<forall>x\<in>set t2. \<not> destroys_resource x"
    using mainLoop_from_events[of n st 0 fes] l by (simp add: mainLoop_def)
  ultimately have "\<forall>x\<in>set (initWindow @ t1 @ t2). \<not> destroys_resource x"
    by (auto simp: initWindow_def)
  moreover have "vkDestroy device \<in> set (tl (cleanup n st))" by (simp add: cleanup_def)
  ultimately show ?thesis using tr cleanup_events[of n st] by blast
qed

theorem C9_drain_before_destroy_witness:
  "(\<exists>pre post. fst example_run = pre @ vkDeviceWaitIdle # post
           \<and> (\<forall>x\<in>set pre. \<not> destroys_resource x)
           \<and> (\<forall>x\<in>set post. \<not> enqueues_work x)
           \<and> vkDestroy device \<in> set post)
   \<and> (\<exists>pre post. fst example_aborted_run = pre @ vkDeviceWaitIdle # post
           \<and> (\<forall>x\<in>set pre. \<not> destroys_resource x)
           \<and> (\<forall>x\<in>set post. \<not> enqueues_work x)
           \<and> vkDestroy device \<in> set post)"
proof -
  have a: "run 2 example_setup [example_frame 0, (example_frame 0)\<lparr>shouldClose := True\<rparr>] example_members
             = (fst example_run, Exited)"
    using example_run_status by (simp add: example_run_def prod_eq_iff)
  have b: "run 2 example_setup [(example_frame 0)\<lparr>r_vkQueueSubmit := VK_ERROR_DEVICE_LOST\<rparr>] example_members
             = (fst example_aborted_run, Returned)"
    using example_aborted_run_status by (simp add: example_aborted_run_def prod_eq_iff)
  from C9_drain_before_destroy[OF a] C9_drain_before_destroy[OF b] show ?thesis by simp
qed

text \<open>
  C10.  In every pass, every use of a swapchain image index (the index written by the
  acquire call, the image of each barrier, the view of the rendering attachment, the
  index presented) is the index acquired in that pass; a completed pass has exactly
  these five uses, in this order.
\<close>

theorem C10_same_image_index:
  "(\<forall>u\<in>set (concat (map image_uses (fst (frame n st c e)))). snd u = imageIndex e)
   \<and> (completes e \<longrightarrow>
        concat (map image_uses (fst (frame n st c e)))
          = [(Acquired, imageIndex e), (BarrierImage, imageIndex e),
             (AttachmentView, imageIndex e), (BarrierImage, imageIndex e),
             (Presented, imageIndex e)])"
  by (simp add: frame_def frame_wait_acquire_def frame_record_def frame_submit_def
      frame_present_def recorded_commands_def completes_def barrier_to_color_attachment_def
      barrier_to_present_def renderingInfo_def colorAttachment_def presentInfo_def)

theorem C10_same_image_index_witness:
  "concat (map image_uses (fst (frame 2 example_members 0 (example_frame 1))))
     = [(Acquired, 1), (BarrierImage, 1), (AttachmentView, 1), (BarrierImage, 1), (Presented, 1)]"
proof -
  have c: "completes (example_frame 1)" by (simp add: completes_def example_frame_def)
  have i: "imageIndex (example_frame 1) = 1" by (simp add: example_frame_def)
  from C10_same_image_index[of 2 example_members 0 "example_frame 1"] c i
  show ?thesis by simp
qed

end
